theory Spec2Isabelle
  imports Main "HOL-Library.AList"
begin

section \<open>Python values and built-ins used by the scripts\<close>

text \<open>
  Exceptions are values. Every operation that can raise returns \<open>py_error + 'a\<close>,
  with \<open>Inl\<close> for the exception. \<open>OutsideModel\<close> is not an exception of
  Python: the model of a library function returns it on an input it does not cover.
\<close>

datatype py_error =
  AttributeError | AssertionError | KeyError | ValueError | TypeError | RecursionError
| ExpatError | OutsideModel

text \<open>
  \<^verbatim>\<open>sep.join(xs)\<close>: the elements of \<open>xs\<close>, in the order \<open>xs\<close> yields them, with
  \<open>sep\<close> between neighbours.
\<close>

fun join :: "string \<Rightarrow> string list \<Rightarrow> string" where
  "join sep [] = ''''"
| "join sep [x] = x"
| "join sep (x # y # ys) = x @ sep @ join sep (y # ys)"

text \<open>\<^verbatim>\<open>str(n)\<close> for a non-negative integer: its decimal digits.\<close>

function str_nat :: "nat \<Rightarrow> string" where
  "str_nat n =
     (if n < 10 then [''0123456789'' ! n]
      else str_nat (n div 10) @ [''0123456789'' ! (n mod 10)])"
  by pat_completeness auto
termination
  by (relation "measure id") auto

declare str_nat.simps [simp del]

text \<open>
  \<^verbatim>\<open>print(x)\<close> appends \<open>x\<close> and a newline to the standard output,
  \<^verbatim>\<open>print(x, end="")\<close> appends \<open>x\<close> alone.
\<close>

definition py_print :: "string \<Rightarrow> string \<Rightarrow> string" where
  "py_print x out = out @ x @ ''\<newline>''"

definition py_print_end :: "string \<Rightarrow> string \<Rightarrow> string" where
  "py_print_end x out = out @ x"

section \<open>flyweight.py\<close>

text \<open>
  The shared state is a Python \<^verbatim>\<open>set\<close> of strings. The script iterates over it
  (\<^verbatim>\<open>"_".join(state)\<close>), so the model of a set value is the list of its elements in
  the order the interpreter iterates them; two lists stand for equal sets (the same
  shared-state combination) exactly when they have the same elements, \<open>set xs = set ys\<close>.
\<close>

type_synonym pyset = "string list"

record Flyweight =
  shared_state :: pyset

text \<open>
  Objects live in a heap and are referred to by their index there, so that two
  references are the same object exactly when they are the same number. A
  \<^verbatim>\<open>FlyweightFactory\<close> instance has no attribute of its own: \<^verbatim>\<open>_flyweights\<close> is
  assigned once, in the class body, and \<^verbatim>\<open>self._flyweights\<close> finds that class
  attribute. The dictionary keeps insertion order; it is the association list
  \<open>flyweights\<close> from keys to references.
\<close>

datatype obj = FlyweightObj Flyweight | FlyweightFactoryObj

record world =
  heap :: "obj list"
  flyweights :: "(string \<times> nat) list"
  stdout :: string

definition program_start :: world where
  "program_start = \<lparr>heap = [], flyweights = [], stdout = ''''\<rparr>"

definition new :: "obj \<Rightarrow> world \<Rightarrow> nat \<times> world" where
  "new x w = (length (heap w), w\<lparr>heap := heap w @ [x]\<rparr>)"

definition get_key :: "pyset \<Rightarrow> string" where
  "get_key state = join ''_'' state"

text \<open>
  \<^verbatim>\<open>__init__\<close>: for each initial state, a new Flyweight is stored under the state's
  key, whether or not the key is already there.
\<close>

fun FlyweightFactory_init :: "nat \<Rightarrow> pyset list \<Rightarrow> world \<Rightarrow> world" where
  "FlyweightFactory_init self [] w = w"
| "FlyweightFactory_init self (state # rest) w =
     (let (r, w1) = new (FlyweightObj \<lparr>shared_state = state\<rparr>) w
      in FlyweightFactory_init self rest
           (w1\<lparr>flyweights := AList.update (get_key state) r (flyweights w1)\<rparr>))"

definition FlyweightFactory :: "pyset list \<Rightarrow> world \<Rightarrow> nat \<times> world" where
  "FlyweightFactory initial_flyweights w =
     (let (self, w1) = new FlyweightFactoryObj w
      in (self, FlyweightFactory_init self initial_flyweights w1))"

text \<open>
  \<^verbatim>\<open>get_flyweight\<close>. \<^verbatim>\<open>self._flyweights.get(key)\<close> is \<^verbatim>\<open>None\<close> for a missing key and
  the stored Flyweight otherwise; a Flyweight is a dataclass instance with neither
  \<^verbatim>\<open>__bool__\<close> nor \<^verbatim>\<open>__len__\<close>, hence true, so the test is a test for the key.
  The method returns \<^verbatim>\<open>self._flyweights[key]\<close>, which raises KeyError on a missing key.
\<close>

definition get_flyweight :: "nat \<Rightarrow> pyset \<Rightarrow> world \<Rightarrow> (py_error + nat) \<times> world" where
  "get_flyweight self state w =
     (let key = get_key state;
          w1 = (case map_of (flyweights w) key of
                  None \<Rightarrow>
                    (let w2 = w\<lparr>stdout := py_print
                                 ''FlyweightFactory: Can't find a flyweight, creating new one.''
                                 (stdout w)\<rparr>;
                         (r, w3) = new (FlyweightObj \<lparr>shared_state = state\<rparr>) w2
                     in w3\<lparr>flyweights := AList.update key r (flyweights w3)\<rparr>)
                | Some r \<Rightarrow>
                    w\<lparr>stdout := py_print ''FlyweightFactory: Reusing existing flyweight.''
                                 (stdout w)\<rparr>)
      in (case map_of (flyweights w1) key of None \<Rightarrow> Inl KeyError | Some r \<Rightarrow> Inr r, w1))"

definition list_flyweights :: "nat \<Rightarrow> world \<Rightarrow> world" where
  "list_flyweights self w =
     (let count = length (flyweights w);
          out1 = py_print (''FlyweightFactory: I have '' @ str_nat count @ '' flyweights:'')
                   (stdout w)
      in w\<lparr>stdout := py_print_end (join ''\<newline>'' (map fst (flyweights w))) out1\<rparr>)"

text \<open>
  A client's calls on the factory class, in order: constructing a factory, and the two
  methods on a factory reference. \<open>do_calls\<close> runs them from left to right.
\<close>

datatype call = Construct "pyset list" | Get nat pyset | List nat

fun do_call :: "call \<Rightarrow> world \<Rightarrow> world" where
  "do_call (Construct initial_flyweights) w = snd (FlyweightFactory initial_flyweights w)"
| "do_call (Get self state) w = snd (get_flyweight self state w)"
| "do_call (List self) w = list_flyweights self w"

fun do_calls :: "call list \<Rightarrow> world \<Rightarrow> world" where
  "do_calls [] w = w"
| "do_calls (c # cs) w = do_calls cs (do_call c w)"



fun seeded :: "call \<Rightarrow> pyset list" where
  "seeded (Construct initial_flyweights) = initial_flyweights"
| "seeded (Get self state) = []"
| "seeded (List self) = []"



subsection \<open>The client of the factory and the main block\<close>

text \<open>
  \<^verbatim>\<open>repr\<close> of a string, whose characters are the code points below 256: in single
  quotes, or in double quotes when the string has a single quote and no double quote; a
  backslash, the enclosing quote, newline, carriage return and tab are written with a
  backslash, and any other character that is not printable (below 32, from 127 to 160,
  and 173) as \<^verbatim>\<open>\xNN\<close>. \<^verbatim>\<open>repr\<close> of a set lists the elements in iteration
  order; the empty set is \<^verbatim>\<open>set()\<close>.
\<close>

definition hex_digit :: "nat \<Rightarrow> char" where
  "hex_digit n = ''0123456789abcdef'' ! n"

definition printable :: "char \<Rightarrow> bool" where
  "printable c =
     (32 \<le> (of_char c :: nat) \<and> (of_char c :: nat) < 127 \<or>
      160 < (of_char c :: nat) \<and> (of_char c :: nat) \<noteq> 173)"

definition repr_char :: "char \<Rightarrow> char \<Rightarrow> string" where
  "repr_char quote c =
     (if c = CHR 0x5C then [CHR 0x5C, CHR 0x5C]
      else if c = quote then [CHR 0x5C, quote]
      else if c = CHR 0x0A then [CHR 0x5C, CHR ''n'']
      else if c = CHR 0x0D then [CHR 0x5C, CHR ''r'']
      else if c = CHR 0x09 then [CHR 0x5C, CHR ''t'']
      else if printable c then [c]
      else [CHR 0x5C, CHR ''x'', hex_digit (of_char c div 16), hex_digit (of_char c mod 16)])"

definition repr_str :: "string \<Rightarrow> string" where
  "repr_str s =
     (let quote = (if CHR 0x27 \<in> set s \<and> CHR 0x22 \<notin> set s then CHR 0x22 else CHR 0x27)
      in [quote] @ concat (map (repr_char quote) s) @ [quote])"

definition repr_set :: "pyset \<Rightarrow> string" where
  "repr_set state =
     (if state = [] then ''set()'' else ''{'' @ join '', '' (map repr_str state) @ ''}'')"

text \<open>
  \<^verbatim>\<open>Flyweight.operation\<close> prints the two sets; an object that is not a Flyweight has
  no such method.
\<close>

definition operation :: "nat \<Rightarrow> pyset \<Rightarrow> world \<Rightarrow> py_error + world" where
  "operation self unique_state w =
     (if self < length (heap w) then
        (case heap w ! self of
           FlyweightObj fw \<Rightarrow>
             Inr (w\<lparr>stdout := py_print_end
                    (''Flyweight: Displaying shared ('' @ repr_set (shared_state fw) @
                     '') and unique ('' @ repr_set unique_state @ '') state.'')
                    (stdout w)\<rparr>)
         | FlyweightFactoryObj \<Rightarrow> Inl AttributeError)
      else Inl AttributeError)"

text \<open>
  \<^verbatim>\<open>add_car_to_police_database\<close> builds the sets \<^verbatim>\<open>{brand, model, color}\<close> and
  \<^verbatim>\<open>{plates, owner}\<close>. In which order a set is iterated is up to the interpreter,
  and may differ between two sets built from the same elements; the last two arguments
  before the world give, for each of the two sets, the iteration order of the set built
  from the listed elements.
\<close>

definition add_car_to_police_database ::
  "nat \<Rightarrow> string \<Rightarrow> string \<Rightarrow> string \<Rightarrow> string \<Rightarrow> string \<Rightarrow>
   (string list \<Rightarrow> pyset) \<Rightarrow> (string list \<Rightarrow> pyset) \<Rightarrow> world \<Rightarrow> py_error + world" where
  "add_car_to_police_database factory plates owner brand model color shared_order unique_order w =
     (let w1 = w\<lparr>stdout := py_print (''\<newline>'' @ ''\<newline>'' @ ''Client: Adding a car to database.'')
                               (stdout w)\<rparr>;
          (res, w2) = get_flyweight factory (shared_order [brand, model, color]) w1
      in case res of
           Inl e \<Rightarrow> Inl e
         | Inr flyweight \<Rightarrow> operation flyweight (unique_order [plates, owner]) w2)"

text \<open>
  The main block. It builds nine sets; \<open>order n\<close> is the iteration order the
  interpreter gives the \<open>n\<close>-th of them. The result is what is printed.
\<close>

definition flyweight_main :: "(nat \<Rightarrow> string list \<Rightarrow> pyset) \<Rightarrow> py_error + string" where
  "flyweight_main order =
     (let (factory, w1) = FlyweightFactory
            [order 0 [''Chevrolet'', ''Camaro2018'', ''pink''],
             order 1 [''Mercedes Benz'', ''C300'', ''black''],
             order 2 [''Mercedes Benz'', ''C500'', ''red''],
             order 3 [''BMW'', ''M5'', ''red''],
             order 4 [''BMW'', ''X6'', ''white'']] program_start;
          w2 = list_flyweights factory w1
      in case add_car_to_police_database factory ''CL234IR'' ''James Doe'' ''BMW'' ''M5'' ''red''
                (order 5) (order 6) w2 of
           Inl e \<Rightarrow> Inl e
         | Inr w3 \<Rightarrow>
      (case add_car_to_police_database factory ''CL234IR'' ''James Doe'' ''BMW'' ''X1'' ''red''
                (order 7) (order 8) w3 of
         Inl e \<Rightarrow> Inl e
       | Inr w4 \<Rightarrow>
           (let w5 = w4\<lparr>stdout := py_print ''\<newline>'' (stdout w4)\<rparr>
            in Inr (stdout (list_flyweights factory w5)))))"

text \<open>
  What flyweight.py prints, as a function of the iteration orders. \<open>listing\<close> is the
  text of one \<^verbatim>\<open>list_flyweights\<close> call for the given keys, \<open>adding\<close> the text of one
  \<^verbatim>\<open>add_car_to_police_database\<close> call with the given message of the factory.
  \<open>flyweight_output\<close> is the output when the set of the first request is iterated as
  the seeded set of the same elements was (\<open>order 5\<close> agrees with \<open>order 3\<close>):
  the first request reuses a flyweight. \<open>flyweight_output_reordered\<close> is the output
  when it is iterated in another order: the first request creates a flyweight too.
\<close>

definition listing :: "string list \<Rightarrow> string" where
  "listing keys =
     ''FlyweightFactory: I have '' @ str_nat (length keys) @ '' flyweights:'' @ ''\<newline>'' @
     join ''\<newline>'' keys"

definition adding :: "string \<Rightarrow> pyset \<Rightarrow> pyset \<Rightarrow> string" where
  "adding message shared unique =
     ''\<newline>'' @ ''\<newline>'' @ ''Client: Adding a car to database.'' @ ''\<newline>'' @
     message @ ''\<newline>'' @
     ''Flyweight: Displaying shared ('' @ repr_set shared @ '') and unique ('' @
     repr_set unique @ '') state.''"

definition seeded_keys :: "(nat \<Rightarrow> string list \<Rightarrow> pyset) \<Rightarrow> string list" where
  "seeded_keys order =
     [get_key (order 0 [''Chevrolet'', ''Camaro2018'', ''pink'']),
      get_key (order 1 [''Mercedes Benz'', ''C300'', ''black'']),
      get_key (order 2 [''Mercedes Benz'', ''C500'', ''red'']),
      get_key (order 3 [''BMW'', ''M5'', ''red'']),
      get_key (order 4 [''BMW'', ''X6'', ''white''])]"

definition flyweight_output :: "(nat \<Rightarrow> string list \<Rightarrow> pyset) \<Rightarrow> string" where
  "flyweight_output order =
     listing (seeded_keys order) @
     adding ''FlyweightFactory: Reusing existing flyweight.''
       (order 3 [''BMW'', ''M5'', ''red'']) (order 6 [''CL234IR'', ''James Doe'']) @
     adding ''FlyweightFactory: Can't find a flyweight, creating new one.''
       (order 7 [''BMW'', ''X1'', ''red'']) (order 8 [''CL234IR'', ''James Doe'']) @
     ''\<newline>'' @ ''\<newline>'' @
     listing (seeded_keys order @ [get_key (order 7 [''BMW'', ''X1'', ''red''])])"

definition flyweight_output_reordered :: "(nat \<Rightarrow> string list \<Rightarrow> pyset) \<Rightarrow> string" where
  "flyweight_output_reordered order =
     listing (seeded_keys order) @
     adding ''FlyweightFactory: Can't find a flyweight, creating new one.''
       (order 5 [''BMW'', ''M5'', ''red'']) (order 6 [''CL234IR'', ''James Doe'']) @
     adding ''FlyweightFactory: Can't find a flyweight, creating new one.''
       (order 7 [''BMW'', ''X1'', ''red'']) (order 8 [''CL234IR'', ''James Doe'']) @
     ''\<newline>'' @ ''\<newline>'' @
     listing (seeded_keys order @
       [get_key (order 5 [''BMW'', ''M5'', ''red'']), get_key (order 7 [''BMW'', ''X1'', ''red''])])"

text \<open>
  Three assignments of iteration orders: every set iterated as it is written; every set
  backwards; and every set as written except the set of the first request, which is
  iterated backwards.
\<close>

definition as_written :: "nat \<Rightarrow> string list \<Rightarrow> pyset" where
  "as_written n xs = remdups xs"

definition backwards :: "nat \<Rightarrow> string list \<Rightarrow> pyset" where
  "backwards n xs = rev (remdups xs)"

definition request_backwards :: "nat \<Rightarrow> string list \<Rightarrow> pyset" where
  "request_backwards n xs = (if n = 5 then rev (remdups xs) else remdups xs)"

section \<open>composite.py\<close>

text \<open>
  A \<^verbatim>\<open>LoadNode\<close> has a name and, once the setter has run, the attribute
  \<^verbatim>\<open>_parent\<close>; a \<^verbatim>\<open>LoadCluster\<close> has in addition the list \<^verbatim>\<open>_children\<close>.
  \<^verbatim>\<open>Loader.__init__\<close> does not create \<^verbatim>\<open>_parent\<close>, so the attribute is
  \<open>None\<close> while it does not exist, \<open>Some None\<close> when it holds Python's
  \<^verbatim>\<open>None\<close>, and \<open>Some (Some r)\<close> when it holds the object \<open>r\<close>. Objects are
  mutated in place and shared by reference, so they live in a store and are named by
  their index there. A reference outside the store does not occur in a run of the
  script; the operations leave the store as it is there.
\<close>

datatype loader =
  LoadNode string "nat option option"
| LoadCluster string "nat option option" "nat list"

type_synonym store = "loader list"

fun loader_name :: "loader \<Rightarrow> string" where
  "loader_name (LoadNode n p) = n"
| "loader_name (LoadCluster n p ch) = n"

fun loader_parent :: "loader \<Rightarrow> nat option option" where
  "loader_parent (LoadNode n p) = p"
| "loader_parent (LoadCluster n p ch) = p"

fun with_parent :: "nat option \<Rightarrow> loader \<Rightarrow> loader" where
  "with_parent q (LoadNode n p) = LoadNode n (Some q)"
| "with_parent q (LoadCluster n p ch) = LoadCluster n (Some q) ch"

text \<open>The constructors: both classes set the name only (and a cluster its empty list).\<close>

definition new_LoadNode :: "string \<Rightarrow> store \<Rightarrow> nat \<times> store" where
  "new_LoadNode n h = (length h, h @ [LoadNode n None])"

definition new_LoadCluster :: "string \<Rightarrow> store \<Rightarrow> nat \<times> store" where
  "new_LoadCluster n h = (length h, h @ [LoadCluster n None []])"

text \<open>The property \<^verbatim>\<open>parent\<close>: the getter raises AttributeError before the first set.\<close>

definition get_parent :: "store \<Rightarrow> nat \<Rightarrow> py_error + nat option" where
  "get_parent h self =
     (case loader_parent (h ! self) of None \<Rightarrow> Inl AttributeError | Some p \<Rightarrow> Inr p)"

definition set_parent :: "store \<Rightarrow> nat \<Rightarrow> nat option \<Rightarrow> store" where
  "set_parent h self parent =
     (if self < length h then h[self := with_parent parent (h ! self)] else h)"

text \<open>
  \<^verbatim>\<open>add_node\<close> and \<^verbatim>\<open>remove_node\<close>: a LoadNode inherits the bodies \<^verbatim>\<open>pass\<close> of
  \<^verbatim>\<open>Loader\<close>; a LoadCluster appends to, or removes the first occurrence from, its
  list and then sets the component's parent. The classes define no \<^verbatim>\<open>__eq__\<close>, so
  \<^verbatim>\<open>list.remove\<close> compares references; it raises ValueError when there is none.
\<close>

definition add_node :: "store \<Rightarrow> nat \<Rightarrow> nat \<Rightarrow> store" where
  "add_node h self component =
     (if self < length h then
        (case h ! self of
           LoadNode n p \<Rightarrow> h
         | LoadCluster n p ch \<Rightarrow>
             set_parent (h[self := LoadCluster n p (ch @ [component])]) component (Some self))
      else h)"

definition remove_node :: "store \<Rightarrow> nat \<Rightarrow> nat \<Rightarrow> py_error + store" where
  "remove_node h self component =
     (if self < length h then
        (case h ! self of
           LoadNode n p \<Rightarrow> Inr h
         | LoadCluster n p ch \<Rightarrow>
             (if component \<in> set ch
              then Inr (set_parent (h[self := LoadCluster n p (remove1 component ch)])
                          component None)
              else Inl ValueError))
      else Inr h)"

definition is_composite :: "store \<Rightarrow> nat \<Rightarrow> bool" where
  "is_composite h self =
     (case h ! self of LoadNode n p \<Rightarrow> False | LoadCluster n p ch \<Rightarrow> True)"

text \<open>
  A loop that appends each child's result: the results in order, or the first
  exception.
\<close>

fun collect :: "(py_error + 'a) list \<Rightarrow> py_error + 'a list" where
  "collect [] = Inr []"
| "collect (Inl e # rs) = Inl e"
| "collect (Inr x # rs) = (case collect rs of Inl e \<Rightarrow> Inl e | Inr xs \<Rightarrow> Inr (x # xs))"

text \<open>
  \<^verbatim>\<open>start_load\<close> and \<^verbatim>\<open>stop_load\<close> recurse through the children. A cluster
  that is its own descendant makes the recursion endless, which Python ends with
  RecursionError when the nesting of calls reaches the interpreter's limit; the first
  argument is the depth still available, that is the number of nested calls the
  interpreter allows the caller to make, this call included.
\<close>

fun start_load :: "nat \<Rightarrow> store \<Rightarrow> nat \<Rightarrow> py_error + string" where
  "start_load 0 h self = Inl RecursionError"
| "start_load (Suc depth) h self =
     (case h ! self of
        LoadNode n p \<Rightarrow> Inr (n @ '' started load.'' @ ''\<newline>'')
      | LoadCluster n p ch \<Rightarrow>
          (case collect (map (start_load depth h) ch) of
             Inl e \<Rightarrow> Inl e
           | Inr results \<Rightarrow>
               Inr (''Cluster '' @ n @ '' started load:'' @ ''\<newline>'' @ join '''' results)))"

fun stop_load :: "nat \<Rightarrow> store \<Rightarrow> nat \<Rightarrow> py_error + string" where
  "stop_load 0 h self = Inl RecursionError"
| "stop_load (Suc depth) h self =
     (case h ! self of
        LoadNode n p \<Rightarrow> Inr (n @ '' stopped load.'' @ ''\<newline>'')
      | LoadCluster n p ch \<Rightarrow>
          (case collect (map (stop_load depth h) ch) of
             Inl e \<Rightarrow> Inl e
           | Inr results \<Rightarrow>
               Inr (''Cluster '' @ n @ '' stopped load:'' @ ''\<newline>'' @ join '''' results)))"

text \<open>
  The two client functions and the script's main block; the result is what is printed.
  The first argument is again the depth still available: the number of nested calls the
  interpreter allows the caller to make. A client function uses one level itself and
  leaves the rest to \<^verbatim>\<open>start_load\<close> and \<^verbatim>\<open>stop_load\<close>. Only these calls are
  counted, since only their nesting grows with the tree; the other methods nest two
  calls at most (\<^verbatim>\<open>add_node\<close> and the setter of \<^verbatim>\<open>parent\<close>), so they have the depth
  they need whenever three levels are available to the main block.
\<close>

fun composite_client_code :: "nat \<Rightarrow> store \<Rightarrow> nat \<Rightarrow> string \<Rightarrow> py_error + string" where
  "composite_client_code 0 h loader out = Inl RecursionError"
| "composite_client_code (Suc depth) h loader out =
     (case start_load depth h loader of
        Inl e \<Rightarrow> Inl e
      | Inr s1 \<Rightarrow>
          (case stop_load depth h loader of
             Inl e \<Rightarrow> Inl e
           | Inr s2 \<Rightarrow> Inr (py_print s2 (py_print s1 out))))"

fun client_code2 :: "nat \<Rightarrow> store \<Rightarrow> nat \<Rightarrow> nat \<Rightarrow> string \<Rightarrow> py_error + store \<times> string" where
  "client_code2 0 h loader1 loader2 out = Inl RecursionError"
| "client_code2 (Suc depth) h loader1 loader2 out =
     (let h1 = (if is_composite h loader1 then add_node h loader1 loader2 else h)
      in case start_load depth h1 loader1 of
           Inl e \<Rightarrow> Inl e
         | Inr s1 \<Rightarrow>
             (case stop_load depth h1 loader1 of
                Inl e \<Rightarrow> Inl e
              | Inr s2 \<Rightarrow> Inr (h1, py_print s2 (py_print s1 out))))"

definition composite_main :: "nat \<Rightarrow> py_error + string" where
  "composite_main depth =
     (let (simple_loader, h1) = new_LoadNode ''Simple load node'' []
      in case composite_client_code depth h1 simple_loader '''' of
           Inl e \<Rightarrow> Inl e
         | Inr out1 \<Rightarrow>
      (let (master_loader, h2) = new_LoadCluster ''Master Loader'' h1
       in case client_code2 depth h2 master_loader simple_loader out1 of
            Inl e \<Rightarrow> Inl e
          | Inr (h3, out2) \<Rightarrow>
       (let (session_load_cluster, h4) = new_LoadCluster ''Session load cluster'' h3;
            (faults_load_cluster, h5) = new_LoadCluster ''Faults load cluster'' h4;
            (n1, h6) = new_LoadNode ''Session load node 1'' h5;
            h7 = add_node h6 session_load_cluster n1;
            (n2, h8) = new_LoadNode ''Session load node 2'' h7;
            h9 = add_node h8 session_load_cluster n2;
            (n3, h10) = new_LoadNode ''Faults load node 1'' h9;
            h11 = add_node h10 faults_load_cluster n3;
            (n4, h12) = new_LoadNode ''Faults load node 2'' h11;
            h13 = add_node h12 faults_load_cluster n4;
            h14 = add_node h13 master_loader session_load_cluster;
            h15 = add_node h14 master_loader faults_load_cluster
        in case start_load depth h15 master_loader of
             Inl e \<Rightarrow> Inl e
           | Inr s1 \<Rightarrow>
               (case start_load depth h15 master_loader of
                  Inl e \<Rightarrow> Inl e
                | Inr s2 \<Rightarrow> Inr (py_print s2 (py_print s1 out2))))))"

section \<open>decorator.py\<close>

text \<open>
  A reporter is the basic component or a decorator around another reporter. The only
  attribute an operation assigns is \<^verbatim>\<open>_mqtt_client\<close> of an
  \<^verbatim>\<open>MQTTReporterDecorator\<close>; it starts as the class attribute \<^verbatim>\<open>None\<close>.
  The script wraps every reporter once, so a decorator is modelled together with the
  reporter it wraps, and an operation returns its result with the reporter as it
  leaves it.
\<close>

datatype reporter =
  BasicSessionDataReporter
| BasicReporterDecorator reporter
| ShadowReporterDecorator reporter
| MQTTReporterDecorator reporter "string option"

text \<open>
  \<^verbatim>\<open>setup_mqtt_client\<close> and \<^verbatim>\<open>teardown_mqtt_client\<close> assign
  \<^verbatim>\<open>self._mqtt_client\<close> and return a message; they take the attribute's old value
  and return the message with the new value.
\<close>

definition setup_mqtt_client :: "string option \<Rightarrow> string \<times> string option" where
  "setup_mqtt_client mqtt_client = (''MQTT Client is set up.'', Some ''MQTT Client up'')"

definition teardown_mqtt_client :: "string option \<Rightarrow> string \<times> string option" where
  "teardown_mqtt_client mqtt_client =
     (''MQTT Client is teared down.'', Some ''MQTT Client down'')"

fun report_data :: "reporter \<Rightarrow> string \<times> reporter" where
  "report_data BasicSessionDataReporter =
     (''I'm reporting basic charging session data to device' shadow'',
      BasicSessionDataReporter)"
| "report_data (BasicReporterDecorator r) =
     (let (s, r1) = report_data r in (s, BasicReporterDecorator r1))"
| "report_data (ShadowReporterDecorator r) =
     (let (s, r1) = report_data r
      in (s @ '' and added meter values to device' shadow'', ShadowReporterDecorator r1))"
| "report_data (MQTTReporterDecorator r m) =
     (let (up, m1) = setup_mqtt_client m;
          (s, r1) = report_data r;
          reported = s @ '' and sent meter values to MQTT topic'';
          (down, m2) = teardown_mqtt_client m1
      in (reported, MQTTReporterDecorator r1 m2))"

definition decorator_client_code :: "reporter \<Rightarrow> string \<Rightarrow> string \<times> reporter" where
  "decorator_client_code component out =
     (let (s, c1) = report_data component in (py_print_end (''RESULT: '' @ s) out, c1))"

definition decorator_main :: string where
  "decorator_main =
     (let just_basic_data = BasicSessionDataReporter;
          out1 = py_print ''Client: I've got a simple component:'' '''';
          (out2, basic1) = decorator_client_code just_basic_data out1;
          out3 = py_print ''\<newline>'' out2;
          with_meter_values_to_shadow = ShadowReporterDecorator basic1;
          with_meter_values_to_mqtt = MQTTReporterDecorator with_meter_values_to_shadow None;
          out4 = py_print ''Client: Now I've got a decorated component:'' out3;
          (out5, mqtt1) = decorator_client_code with_meter_values_to_mqtt out4
      in out5)"

text \<open>Whether a reporter contains an \<^verbatim>\<open>MQTTReporterDecorator\<close>.\<close>

fun has_mqtt :: "reporter \<Rightarrow> bool" where
  "has_mqtt BasicSessionDataReporter = False"
| "has_mqtt (BasicReporterDecorator r) = has_mqtt r"
| "has_mqtt (ShadowReporterDecorator r) = has_mqtt r"
| "has_mqtt (MQTTReporterDecorator r m) = True"

section \<open>bridge.py\<close>

text \<open>
  The two implementations have no attribute; the abstraction holds a reference to one
  of them. \<^verbatim>\<open>self.__class__.__name__\<close> is the name of the object's class.
  \<^verbatim>\<open>random.choices(population, k=6)\<close> returns \<open>population[i]\<close> for six indices
  \<open>i\<close> that the interpreter's random generator draws below the length of the
  population; the indices drawn in a call are a parameter of the model.
\<close>

datatype api_implementation = CloudAPIImplementation | ExternalAPIImplementation

record AbstractAPI =
  implementation :: api_implementation

fun class_name :: "api_implementation \<Rightarrow> string" where
  "class_name CloudAPIImplementation = ''CloudAPIImplementation''"
| "class_name ExternalAPIImplementation = ''ExternalAPIImplementation''"

definition ascii_uppercase :: string where
  "ascii_uppercase = ''ABCDEFGHIJKLMNOPQRSTUVWXYZ''"

definition digits :: string where
  "digits = ''0123456789''"

definition random_choices :: "'a list \<Rightarrow> nat \<Rightarrow> nat list \<Rightarrow> 'a list" where
  "random_choices population k draws = map (\<lambda>i. population ! i) (take k draws)"

text \<open>
  \<^verbatim>\<open>get_user\<close> returns a pair in the cloud implementation and a triple in the
  external one, and each \<^verbatim>\<open>login\<close> unpacks the tuple of its own class.
\<close>

definition CloudAPIImplementation_get_user :: "string \<times> string" where
  "CloudAPIImplementation_get_user = (''CloudUser'', class_name CloudAPIImplementation)"

definition ExternalAPIImplementation_get_user :: "nat list \<Rightarrow> string \<times> string \<times> string" where
  "ExternalAPIImplementation_get_user draws =
     (let token = join '''' (map (\<lambda>c. [c]) (random_choices (ascii_uppercase @ digits) 6 draws))
      in (''ExternalUser'', class_name ExternalAPIImplementation, token))"

fun login :: "api_implementation \<Rightarrow> nat list \<Rightarrow> string" where
  "login CloudAPIImplementation draws =
     (let (user, role) = CloudAPIImplementation_get_user
      in ''Logged to cloud platform as user '' @ user @ '' with role '' @ role)"
| "login ExternalAPIImplementation draws =
     (let (user, role, token) = ExternalAPIImplementation_get_user draws
      in ''Logged to cloud platform via external API token '' @ token @ '' as '' @ user @
         '' with role '' @ role)"

definition authenticate :: "AbstractAPI \<Rightarrow> nat list \<Rightarrow> string" where
  "authenticate self draws = login (implementation self) draws"

definition bridge_client_code :: "AbstractAPI \<Rightarrow> nat list \<Rightarrow> string \<Rightarrow> string" where
  "bridge_client_code api_abstraction draws out =
     py_print_end (authenticate api_abstraction draws) out"

definition bridge_main :: "nat list \<Rightarrow> string" where
  "bridge_main draws =
     (let cloud_api = CloudAPIImplementation;
          abstraction = \<lparr>implementation = cloud_api\<rparr>;
          out1 = bridge_client_code abstraction [] '''';
          out2 = py_print ''\<newline>'' out1;
          external_api = ExternalAPIImplementation;
          abstraction2 = \<lparr>implementation = external_api\<rparr>
      in bridge_client_code abstraction2 draws out2)"

section \<open>facade.py\<close>

text \<open>
  The two subsystems have static methods only and no attribute. The facade keeps the
  two subsystems it is given; an argument that is false (\<^verbatim>\<open>None\<close>) is replaced by
  a new subsystem.
\<close>

datatype DbSubsystem = DbSubsystem

datatype IoTSubsystem = IoTSubsystem

record AWSFacade =
  db_subsystem :: DbSubsystem
  iot_subsystem :: IoTSubsystem

definition new_AWSFacade :: "DbSubsystem option \<Rightarrow> IoTSubsystem option \<Rightarrow> AWSFacade" where
  "new_AWSFacade db iot =
     \<lparr>db_subsystem = (case db of None \<Rightarrow> DbSubsystem | Some d \<Rightarrow> d),
      iot_subsystem = (case iot of None \<Rightarrow> IoTSubsystem | Some i \<Rightarrow> i)\<rparr>"

definition check_charger_in_shadow_table :: string where
  "check_charger_in_shadow_table = ''Charger got to shadow table!'' @ ''\<newline>''"

definition check_charger_in_cloud_table :: string where
  "check_charger_in_cloud_table = ''Charger got to cloud table!'' @ ''\<newline>''"

definition check_charger_in_es :: string where
  "check_charger_in_es = ''Charger got to UI!'' @ ''\<newline>''"

definition create_thing :: string where
  "create_thing = ''Charger's thing is created!'' @ ''\<newline>''"

definition add_shadow_to_thing :: string where
  "add_shadow_to_thing = ''Shadow added to charger's thing!'' @ ''\<newline>''"

definition initialize_charger :: "AWSFacade \<Rightarrow> string" where
  "initialize_charger self =
     (let results = [create_thing, add_shadow_to_thing, check_charger_in_shadow_table,
                     check_charger_in_cloud_table, check_charger_in_es]
      in ''Charger initialized:'' @ ''\<newline>'' @ join '''' results)"

definition facade_client_code :: "AWSFacade \<Rightarrow> string \<Rightarrow> string" where
  "facade_client_code aws_facade out = py_print_end (initialize_charger aws_facade) out"

definition facade_main :: string where
  "facade_main =
     (let db = DbSubsystem;
          iot = IoTSubsystem;
          facade = new_AWSFacade (Some db) (Some iot)
      in facade_client_code facade '''')"

section \<open>adapter.py\<close>

text \<open>
  The values the script passes around: \<^verbatim>\<open>None\<close>, strings, byte strings and
  dictionaries with string keys. A dictionary keeps the order of its items.
\<close>

datatype pyval = PyNone | PyStr string | PyBytes string | PyDict "(string \<times> pyval) list"

text \<open>
  \<^verbatim>\<open>xmltodict.parse\<close>, \<^verbatim>\<open>json.dumps\<close> and \<^verbatim>\<open>json.loads\<close> are library
  functions outside the repository. They are parameters of the model: each takes its
  argument and returns a value or raises. The text \<^verbatim>\<open>json.dumps\<close> returns is kept
  as the JSON document it denotes, which has the shape of a value.
\<close>

type_synonym json_text = pyval

record libs =
  xmltodict_parse :: "pyval \<Rightarrow> py_error + pyval"
  json_dumps :: "pyval \<Rightarrow> py_error + json_text"
  json_loads :: "json_text \<Rightarrow> py_error + pyval"

definition Target_request :: pyval where
  "Target_request =
     PyDict [(''json_data'', PyDict [(''some_critical_data'', PyStr ''very_much_business_value'')])]"

definition specific_request :: pyval where
  "specific_request =
     PyBytes ''<xml_data><some_critical_data>very_much_business_value</some_critical_data></xml_data>''"

definition Adapter_request :: "libs \<Rightarrow> py_error + pyval" where
  "Adapter_request L =
     (case xmltodict_parse L specific_request of
        Inl e \<Rightarrow> Inl e
      | Inr parsed \<Rightarrow>
          (case json_dumps L parsed of
             Inl e \<Rightarrow> Inl e
           | Inr dumped \<Rightarrow> json_loads L dumped))"

text \<open>
  The objects \<^verbatim>\<open>client_code\<close> can be given: an instance of one of the script's
  three classes, or any other object, of which only the attribute \<^verbatim>\<open>request\<close>
  matters: \<open>Other None\<close> has none, and \<open>Other (Some r)\<close> has a method
  \<^verbatim>\<open>request\<close> that returns or raises \<open>r\<close>. \<^verbatim>\<open>Adapter\<close> inherits from
  \<^verbatim>\<open>Target\<close> and \<^verbatim>\<open>Adaptee\<close> and overrides \<^verbatim>\<open>request\<close>; \<^verbatim>\<open>Adaptee\<close> has
  \<^verbatim>\<open>specific_request\<close> only.
\<close>

datatype service = Target | Adaptee | Adapter | Other "(py_error + pyval) option"

fun request :: "libs \<Rightarrow> service \<Rightarrow> py_error + pyval" where
  "request L Target = Inr Target_request"
| "request L Adaptee = Inl AttributeError"
| "request L Adapter = Adapter_request L"
| "request L (Other None) = Inl AttributeError"
| "request L (Other (Some r)) = r"

fun isinstance_dict :: "pyval \<Rightarrow> bool" where
  "isinstance_dict (PyDict items) = True"
| "isinstance_dict v = False"

text \<open>
  What is printed: a string as it is, any other value through its \<^verbatim>\<open>repr\<close>, which
  the model keeps as the value.
\<close>

datatype printed = Text string | Repr pyval

definition adapter_client_code :: "libs \<Rightarrow> service \<Rightarrow> printed list \<Rightarrow> py_error + printed list" where
  "adapter_client_code L target out =
     (case request L target of
        Inl e \<Rightarrow> Inl e
      | Inr data \<Rightarrow>
          (if isinstance_dict data then Inr (out @ [Repr data]) else Inl AssertionError))"

text \<open>
  The \<^verbatim>\<open>try\<close> statement of the main block, for the object it is run on: it catches
  AttributeError and nothing else; any other exception leaves it.
\<close>

definition try_client_code :: "libs \<Rightarrow> service \<Rightarrow> printed list \<Rightarrow> py_error + printed list" where
  "try_client_code L adaptee_service out =
     (case adapter_client_code L adaptee_service out of
        Inl AttributeError \<Rightarrow> Inr (out @ [Text ''Adaptee doesn't have 'request' method''])
      | Inl e \<Rightarrow> Inl e
      | Inr out1 \<Rightarrow> Inr out1)"

text \<open>The main block. An exception outside the \<^verbatim>\<open>try\<close> statement ends the script.\<close>

definition adapter_main :: "libs \<Rightarrow> py_error + printed list" where
  "adapter_main L =
     (let out1 = [Text (''Client works fine with Target interface:'' @ ''\<newline>'')];
          target_service = Target
      in case adapter_client_code L target_service out1 of
           Inl e \<Rightarrow> Inl e
         | Inr out2 \<Rightarrow>
      (let out3 = out2 @ [Text (''\<newline>'' @ ''\<newline>''),
                          Text (''Client could not work with Adaptee interface:'' @ ''\<newline>'')];
           adaptee_service = Adaptee
       in case try_client_code L adaptee_service out3 of
            Inl e \<Rightarrow> Inl e
          | Inr out4 \<Rightarrow>
       (let out5 = out4 @ [Text (''\<newline>'' @ ''\<newline>''),
                           Text (''But client could work with Adaptee service using Adapter:'' @
                                 ''\<newline>'')];
            adapted_service = Adapter
        in adapter_client_code L adapted_service out5)))"

subsection \<open>The libraries\<close>

text \<open>
  Modelled from the spec: \<^verbatim>\<open>xmltodict.parse\<close>, the generic XML-to-dict conversion
  library the adapter calls; its code is not among the repository's files. The
  conversion reads a document of elements and text: the document becomes a dictionary
  with one item, keyed by the root element's tag, and the value of an element is the
  dictionary of its child elements, keyed by their tags in document order, or else its
  text, or \<^verbatim>\<open>None\<close> when it has neither. The model covers exactly the ASCII
  documents that consist of \<^verbatim>\<open><tag>\<close>, \<^verbatim>\<open></tag>\<close> and text, with sibling
  elements of different tags, no text beside child elements, and no white space at either
  end of a text or around the root element. On any other well-formed document
  (attributes, empty-element tags, entities, comments, repeated tags and so on) it
  answers \<open>OutsideModel\<close>. A document that is not well-formed (a closing tag that does
  not match, a tag that is not a name, text outside the root element, an end inside an
  element) is rejected as the parser of the library rejects it.

  The scanner reads one character at a time. Its state is what it is reading (text, the
  character after \<^verbatim>\<open><\<close>, the tag of an opening or a closing tag), the tag read so
  far, and the stack of open elements, each with its tag, the items of its children so
  far and its text so far; the lowest entry stands for the document.
\<close>

datatype scan_mode = InText | TagStart | InOpen | InClose

type_synonym frame = "string \<times> (string \<times> pyval) list \<times> string"

type_synonym scan_state = "scan_mode \<times> string \<times> frame list"

definition is_space :: "char \<Rightarrow> bool" where
  "is_space c = (c \<in> set [CHR '' '', CHR 0x09, CHR 0x0A, CHR 0x0D])"

definition is_ascii :: "char \<Rightarrow> bool" where
  "is_ascii c = ((of_char c :: nat) < 128)"

definition is_control :: "char \<Rightarrow> bool" where
  "is_control c = ((of_char c :: nat) < 32 \<and> \<not> is_space c)"

definition name_start :: "char \<Rightarrow> bool" where
  "name_start c =
     (c \<in> set (''abcdefghijklmnopqrstuvwxyz'' @ ''ABCDEFGHIJKLMNOPQRSTUVWXYZ'' @ ''_:''))"

definition name_char :: "char \<Rightarrow> bool" where
  "name_char c = (name_start c \<or> c \<in> set ''0123456789-.'')"

definition element_value :: "(string \<times> pyval) list \<Rightarrow> string \<Rightarrow> py_error + pyval" where
  "element_value children text =
     (if children \<noteq> [] then (if text = '''' then Inr (PyDict children) else Inl OutsideModel)
      else if text = '''' then Inr PyNone
      else if is_space (hd text) \<or> is_space (last text) then Inl OutsideModel
      else Inr (PyStr text))"

fun close_element :: "string \<Rightarrow> frame list \<Rightarrow> py_error + scan_state" where
  "close_element tag ((t, children, text) # (pt, siblings, ptext) # below) =
     (if t \<noteq> tag then Inl ExpatError
      else if below = [] \<and> siblings \<noteq> [] then Inl ExpatError
      else case element_value children text of
             Inl e \<Rightarrow> Inl e
           | Inr v \<Rightarrow>
               (if tag \<in> set (map fst siblings) then Inl OutsideModel
                else Inr (InText, '''', (pt, siblings @ [(tag, v)], ptext) # below)))"
| "close_element tag stack = Inl ExpatError"

fun scan_char :: "char \<Rightarrow> scan_state \<Rightarrow> py_error + scan_state" where
  "scan_char c (InText, tag, []) = Inl ExpatError"
| "scan_char c (InText, tag, (t, children, text) # below) =
     (if c = CHR ''<'' then Inr (TagStart, '''', (t, children, text) # below)
      else if is_control c then Inl ExpatError
      else if c = CHR ''&'' \<or> c = CHR '']'' \<or> \<not> is_ascii c then Inl OutsideModel
      else Inr (InText, '''', (t, children, text @ [c]) # below))"
| "scan_char c (TagStart, tag, stack) =
     (if c = CHR ''/'' then Inr (InClose, '''', stack)
      else if name_start c then Inr (InOpen, [c], stack)
      else if c = CHR ''!'' \<or> c = CHR ''?'' \<or> \<not> is_ascii c then Inl OutsideModel
      else Inl ExpatError)"
| "scan_char c (InOpen, tag, stack) =
     (if c = CHR ''>'' then Inr (InText, '''', (tag, [], '''') # stack)
      else if name_char c then Inr (InOpen, tag @ [c], stack)
      else if is_space c \<or> c = CHR ''/'' \<or> \<not> is_ascii c then Inl OutsideModel
      else Inl ExpatError)"
| "scan_char c (InClose, tag, stack) =
     (if c = CHR ''>'' then close_element tag stack
      else if name_char c then Inr (InClose, tag @ [c], stack)
      else if is_space c \<or> \<not> is_ascii c then Inl OutsideModel
      else Inl ExpatError)"

fun scan :: "string \<Rightarrow> scan_state \<Rightarrow> py_error + scan_state" where
  "scan [] st = Inr st"
| "scan (c # cs) st = (case scan_char c st of Inl e \<Rightarrow> Inl e | Inr st1 \<Rightarrow> scan cs st1)"

fun document_value :: "scan_state \<Rightarrow> py_error + pyval" where
  "document_value (InText, tag, [(t, [root], text)]) =
     (if text = '''' then Inr (PyDict [root])
      else if list_all is_space text then Inl OutsideModel
      else Inl ExpatError)"
| "document_value st = Inl ExpatError"

text \<open>
  \<^verbatim>\<open>parse\<close> takes a string or a byte string; any other argument is outside the
  model.
\<close>

fun xml_to_dict :: "pyval \<Rightarrow> py_error + pyval" where
  "xml_to_dict (PyBytes b) =
     (case scan b (InText, '''', [('''', [], '''')]) of
        Inl e \<Rightarrow> Inl e
      | Inr st \<Rightarrow> document_value st)"
| "xml_to_dict (PyStr s) =
     (case scan s (InText, '''', [('''', [], '''')]) of
        Inl e \<Rightarrow> Inl e
      | Inr st \<Rightarrow> document_value st)"
| "xml_to_dict v = Inl OutsideModel"

text \<open>
  Modelled from the spec: \<^verbatim>\<open>json.dumps\<close> and \<^verbatim>\<open>json.loads\<close> of Python's
  standard library, which the spec does not mention and the adapter calls on the
  converted dictionary. \<^verbatim>\<open>dumps\<close> writes \<^verbatim>\<open>None\<close>, strings and dictionaries with
  string keys as a JSON document and raises TypeError on a byte string; \<^verbatim>\<open>loads\<close>
  reads a JSON document of \<^verbatim>\<open>null\<close>, strings and objects back as the equal value.
\<close>

fun json_serialisable :: "pyval \<Rightarrow> bool" where
  "json_serialisable PyNone = True"
| "json_serialisable (PyStr s) = True"
| "json_serialisable (PyBytes b) = False"
| "json_serialisable (PyDict items) = (\<forall>v\<in>set (map snd items). json_serialisable v)"

definition dumps :: "pyval \<Rightarrow> py_error + json_text" where
  "dumps v = (if json_serialisable v then Inr v else Inl TypeError)"

definition loads :: "json_text \<Rightarrow> py_error + pyval" where
  "loads t = Inr t"

definition xml_libs :: libs where
  "xml_libs = \<lparr>xmltodict_parse = xml_to_dict, json_dumps = dumps, json_loads = loads\<rparr>"

definition xml_data_dict :: pyval where
  "xml_data_dict =
     PyDict [(''xml_data'', PyDict [(''some_critical_data'', PyStr ''very_much_business_value'')])]"

section \<open>Concrete objects for the examples\<close>

text \<open>The first two objects of composite.py's main block, before the leaf is added.\<close>

definition demo_store :: store where
  "demo_store = [LoadNode ''Simple load node'' None, LoadCluster ''Master Loader'' None []]"

text \<open>The decorated reporter of decorator.py's main block.\<close>

definition demo_reporter :: reporter where
  "demo_reporter =
     MQTTReporterDecorator (ShadowReporterDecorator BasicSessionDataReporter) None"

text \<open>The token \<^verbatim>\<open>get_user\<close> builds from six drawn indices.\<close>

definition token_of :: "nat list \<Rightarrow> string" where
  "token_of draws = map (\<lambda>i. (ascii_uppercase @ digits) ! i) (take 6 draws)"

text \<open>Lines of output, each ended by a newline.\<close>

definition unlines :: "string list \<Rightarrow> string" where
  "unlines ls = concat (map (\<lambda>l. l @ ''\<newline>'') ls)"

text \<open>What composite.py, decorator.py and facade.py print.\<close>

definition composite_output :: string where
  "composite_output = unlines
     [''Simple load node started load.'', '''',
      ''Simple load node stopped load.'', '''',
      ''Cluster Master Loader started load:'',
      ''Simple load node started load.'', '''',
      ''Cluster Master Loader stopped load:'',
      ''Simple load node stopped load.'', '''',
      ''Cluster Master Loader started load:'',
      ''Simple load node started load.'',
      ''Cluster Session load cluster started load:'',
      ''Session load node 1 started load.'',
      ''Session load node 2 started load.'',
      ''Cluster Faults load cluster started load:'',
      ''Faults load node 1 started load.'',
      ''Faults load node 2 started load.'', '''',
      ''Cluster Master Loader started load:'',
      ''Simple load node started load.'',
      ''Cluster Session load cluster started load:'',
      ''Session load node 1 started load.'',
      ''Session load node 2 started load.'',
      ''Cluster Faults load cluster started load:'',
      ''Faults load node 1 started load.'',
      ''Faults load node 2 started load.'', '''']"

definition decorator_output :: string where
  "decorator_output = unlines
     [''Client: I've got a simple component:'',
      ''RESULT: I'm reporting basic charging session data to device' shadow'', '''',
      ''Client: Now I've got a decorated component:''] @
     ''RESULT: I'm reporting basic charging session data to device' shadow'' @
     '' and added meter values to device' shadow and sent meter values to MQTT topic''"

definition facade_output :: string where
  "facade_output = unlines
     [''Charger initialized:'',
      ''Charger's thing is created!'',
      ''Shadow added to charger's thing!'',
      ''Charger got to shadow table!'',
      ''Charger got to cloud table!'',
      ''Charger got to UI!'']"

definition adapter_output :: "pyval \<Rightarrow> printed list" where
  "adapter_output d =
     [Text (''Client works fine with Target interface:'' @ ''\<newline>''),
      Repr Target_request,
      Text (''\<newline>'' @ ''\<newline>''),
      Text (''Client could not work with Adaptee interface:'' @ ''\<newline>''),
      Text ''Adaptee doesn't have 'request' method'',
      Text (''\<newline>'' @ ''\<newline>''),
      Text (''But client could work with Adaptee service using Adapter:'' @ ''\<newline>''),
      Repr d]"

section \<open>Properties of flyweight.py\<close>

subsection \<open>The key\<close>

lemma join_Cons:
  "ys \<noteq> [] \<Longrightarrow> join sep (x # ys) = x @ sep @ join sep ys"
  by (cases ys) simp_all

lemma split_at_separator:
  assumes "c \<notin> set x" and "c \<notin> set y" and "x @ c # r = y @ c # s"
  shows "x = y \<and> r = s"
proof -
  have "takeWhile (\<lambda>d. d \<noteq> c) (x @ c # r) = x" and "takeWhile (\<lambda>d. d \<noteq> c) (y @ c # s) = y"
    using assms(1,2) by (auto simp: takeWhile_tail)
  with assms(3) have "x = y" by simp
  with assms(3) show ?thesis by simp
qed

lemma join_inject:
  assumes "\<forall>x\<in>set xs. c \<notin> set x" and "\<forall>y\<in>set ys. c \<notin> set y"
    and "xs \<noteq> []" and "ys \<noteq> []" and "join [c] xs = join [c] ys"
  shows "xs = ys"
  using assms
proof (induction xs arbitrary: ys)
  case Nil
  then show ?case by simp
next
  case (Cons x xs)
  from Cons.prems(4) obtain y ys' where ys: "ys = y # ys'" by (cases ys) auto
  have cx: "c \<notin> set x" and cy: "c \<notin> set y"
    using Cons.prems(1,2) ys by auto
  show ?case
  proof (cases "xs = []")
    case True
    show ?thesis
    proof (cases "ys' = []")
      case True
      with \<open>xs = []\<close> Cons.prems(5) ys show ?thesis by simp
    next
      case False
      with \<open>xs = []\<close> Cons.prems(5) ys have "x = y @ c # join [c] ys'"
        by (simp add: join_Cons)
      with cx have False by simp
      then show ?thesis ..
    qed
  next
    case False
    show ?thesis
    proof (cases "ys' = []")
      case True
      with False Cons.prems(5) ys have "y = x @ c # join [c] xs"
        by (simp add: join_Cons)
      with cy have False by simp
      then show ?thesis ..
    next
      case nonempty: False
      from False nonempty Cons.prems(5) ys
      have "x @ c # join [c] xs = y @ c # join [c] ys'"
        by (simp add: join_Cons)
      with cx cy have both: "x = y \<and> join [c] xs = join [c] ys'"
        by (rule split_at_separator)
      then have "x = y" and rest: "join [c] xs = join [c] ys'"
        by simp_all
      have "xs = ys'"
        using Cons.IH [of ys'] Cons.prems(1,2) ys False nonempty rest by simp
      with \<open>x = y\<close> ys show ?thesis by simp
    qed
  qed
qed

text \<open>
  C2 (code evaluated at the failing input). The lists \<open>[''a'', ''b'']\<close> and
  \<open>[''b'', ''a'']\<close> are two iteration orders of the same set \<open>{''a'', ''b''}\<close>.
  \<open>get_key\<close> joins the elements in iteration order without sorting them, and returns
  \<open>''a_b''\<close> for the first and \<open>''b_a''\<close> for the second: the key depends on the
  order in which the set is enumerated.
\<close>

theorem get_key_follows_iteration_order:
  "set [''a'', ''b''] = set [''b'', ''a''] \<and>
   get_key [''a'', ''b''] = ''a_b'' \<and>
   get_key [''b'', ''a''] = ''b_a'' \<and>
   get_key [''a'', ''b''] \<noteq> get_key [''b'', ''a'']"
  by (auto simp: get_key_def)

text \<open>
  C4 (the claim as stated fails). The one-element state \<open>{''__''}\<close> and the two-element
  state \<open>{'''', ''_''}\<close> are different combinations, and \<open>get_key\<close> returns
  \<open>''__''\<close> for both, in either iteration order of the second.
\<close>

theorem get_key_collision:
  "get_key [''__''] = get_key ['''', ''_''] \<and>
   get_key [''__''] = get_key [''_'', ''''] \<and>
   set [''__''] \<noteq> set ['''', ''_'']"
  by (auto simp: get_key_def)

text \<open>
  C4 (amended). For two non-empty states none of whose elements contains the separator
  \<open>_\<close>, equal keys mean the same elements in the same iteration order, hence the same
  state combination.
\<close>

theorem get_key_inject:
  assumes "xs \<noteq> []" and "ys \<noteq> []"
    and "\<forall>x\<in>set xs. CHR ''_'' \<notin> set x" and "\<forall>y\<in>set ys. CHR ''_'' \<notin> set y"
    and "get_key xs = get_key ys"
  shows "xs = ys \<and> set xs = set ys"
proof -
  have "join [CHR ''_''] xs = join [CHR ''_''] ys"
    using assms(5) by (simp add: get_key_def)
  then have "xs = ys"
    using join_inject [of xs "CHR ''_''" ys] assms(1-4) by blast
  then show ?thesis by simp
qed

theorem get_key_inject_witness:
  "get_key [''BMW'', ''M5'', ''red''] = ''BMW_M5_red'' \<and>
   [''BMW'', ''M5'', ''red''] = [''BMW'', ''M5'', ''red''] \<and>
   set [''BMW'', ''M5'', ''red''] = set [''BMW'', ''M5'', ''red'']"
  using get_key_inject [of "[''BMW'', ''M5'', ''red'']" "[''BMW'', ''M5'', ''red'']"]
  by (simp add: get_key_def)

subsection \<open>The cache\<close>

lemma get_flyweight_hit:
  assumes "map_of (flyweights w) (get_key s) = Some r"
  shows "get_flyweight self s w =
           (Inr r, w\<lparr>stdout := py_print ''FlyweightFactory: Reusing existing flyweight.''
                                 (stdout w)\<rparr>)"
  using assms by (simp add: get_flyweight_def)

lemma get_flyweight_miss:
  assumes "map_of (flyweights w) (get_key s) = None"
  shows "get_flyweight self s w =
           (Inr (length (heap w)),
            w\<lparr>stdout := py_print
                 ''FlyweightFactory: Can't find a flyweight, creating new one.'' (stdout w),
              heap := heap w @ [FlyweightObj \<lparr>shared_state = s\<rparr>],
              flyweights := AList.update (get_key s) (length (heap w)) (flyweights w)\<rparr>)"
  using assms by (simp add: get_flyweight_def new_def update_conv')


lemma init_keys:
  "fst ` set (flyweights (FlyweightFactory_init self xs w)) =
     fst ` set (flyweights w) \<union> get_key ` set xs"
proof (induction xs arbitrary: w)
  case Nil
  then show ?case by simp
next
  case (Cons x xs)
  show ?case
    by (simp add: new_def Cons.IH dom_update)
qed

lemma init_distinct:
  "distinct (map fst (flyweights w)) \<Longrightarrow>
   distinct (map fst (flyweights (FlyweightFactory_init self xs w)))"
  by (induction xs arbitrary: w) (auto simp: new_def distinct_update)






lemma list_flyweights_stdout:
  "stdout (list_flyweights self w) =
     stdout w @ ''FlyweightFactory: I have '' @ str_nat (length (flyweights w)) @
     '' flyweights:'' @ ''\<newline>'' @ join ''\<newline>'' (map fst (flyweights w))"
  by (simp add: list_flyweights_def py_print_def py_print_end_def)





text \<open>
  C1 (code evaluated at the failing input). A fresh factory is asked for the state
  \<open>{''a'', ''b''}\<close> twice; the first set is iterated as \<open>a, b\<close>, the second, an equal
  set, as \<open>b, a\<close>. The first call creates object 1 under the key \<open>''a_b''\<close>. The
  second call computes the key \<open>''b_a''\<close>, finds nothing, and creates and returns
  object 2: the same shared-state combination now has two Flyweights.
\<close>

theorem reordered_state_second_flyweight:
  "set [''a'', ''b''] = set [''b'', ''a''] \<and>
   FlyweightFactory [] program_start = (0, \<lparr>heap = [FlyweightFactoryObj], flyweights = [], stdout = ''''\<rparr>) \<and>
   fst (get_flyweight 0 [''a'', ''b''] (do_calls [Construct []] program_start)) = Inr 1 \<and>
   fst (get_flyweight 0 [''b'', ''a'']
         (do_calls [Construct [], Get 0 [''a'', ''b'']] program_start)) = Inr 2 \<and>
   heap (do_calls [Construct [], Get 0 [''a'', ''b''], Get 0 [''b'', ''a'']] program_start) =
     [FlyweightFactoryObj, FlyweightObj \<lparr>shared_state = [''a'', ''b'']\<rparr>,
      FlyweightObj \<lparr>shared_state = [''b'', ''a'']\<rparr>] \<and>
   flyweights (do_calls [Construct [], Get 0 [''a'', ''b''], Get 0 [''b'', ''a'']] program_start) =
     [(''a_b'', 1), (''b_a'', 2)]"
  by code_simp

lemma get_flyweight_stores:
  "\<exists>r. fst (get_flyweight self s w) = Inr r \<and>
       map_of (flyweights (snd (get_flyweight self s w))) (get_key s) = Some r"
proof (cases "map_of (flyweights w) (get_key s)")
  case None
  then show ?thesis by (simp add: get_flyweight_miss update_conv')
next
  case (Some r)
  then show ?thesis by (simp add: get_flyweight_hit)
qed

lemma get_flyweight_keeps:
  assumes "map_of (flyweights w) k = Some r"
  shows "map_of (flyweights (snd (get_flyweight self s w))) k = Some r"
proof (cases "map_of (flyweights w) (get_key s)")
  case None
  with assms have "get_key s \<noteq> k" by auto
  with None assms show ?thesis by (simp add: get_flyweight_miss update_conv')
next
  case (Some r')
  with assms show ?thesis by (simp add: get_flyweight_hit)
qed

lemma init_keeps:
  assumes "map_of (flyweights w) k = Some r" and "k \<notin> get_key ` set xs"
  shows "map_of (flyweights (FlyweightFactory_init self xs w)) k = Some r"
  using assms
proof (induction xs arbitrary: w)
  case Nil
  then show ?case by simp
next
  case (Cons x xs)
  then show ?case by (simp add: new_def update_conv')
qed

lemma do_call_keeps:
  assumes "map_of (flyweights w) k = Some r" and "k \<notin> get_key ` set (seeded c)"
  shows "map_of (flyweights (do_call c w)) k = Some r"
proof (cases c)
  case (Construct xs)
  with assms show ?thesis
    by (simp add: FlyweightFactory_def new_def init_keeps)
next
  case (Get self s)
  with assms show ?thesis by (simp add: get_flyweight_keeps)
next
  case (List self)
  with assms show ?thesis by (simp add: list_flyweights_def)
qed

lemma do_calls_keeps:
  assumes "map_of (flyweights w) k = Some r" and "\<forall>c\<in>set cs. k \<notin> get_key ` set (seeded c)"
  shows "map_of (flyweights (do_calls cs w)) k = Some r"
  using assms
proof (induction cs arbitrary: w)
  case Nil
  then show ?case by simp
next
  case (Cons c cs)
  then show ?case by (simp add: do_call_keeps)
qed

text \<open>
  What the cache does guarantee. After \<open>get_flyweight\<close> has been called with a state
  \<open>s\<close>, let the client make any further calls \<open>cs\<close> of which none constructs a
  factory seeded with a state of the same key. Then every later call with a state whose
  key is that of \<open>s\<close> (in particular \<open>s\<close> itself, enumerated as before), on any
  factory, returns the object the first call returned, and changes nothing but the
  standard output: no Flyweight is constructed.
\<close>

theorem get_flyweight_again:
  assumes "\<forall>c\<in>set cs. get_key s \<notin> get_key ` set (seeded c)"
    and "get_key s' = get_key s"
  shows "\<exists>r. fst (get_flyweight self s w) = Inr r \<and>
           get_flyweight self' s' (do_calls cs (snd (get_flyweight self s w))) =
             (Inr r, (do_calls cs (snd (get_flyweight self s w)))
                \<lparr>stdout := py_print ''FlyweightFactory: Reusing existing flyweight.''
                   (stdout (do_calls cs (snd (get_flyweight self s w))))\<rparr>)"
proof -
  obtain r where r: "fst (get_flyweight self s w) = Inr r"
    and stored: "map_of (flyweights (snd (get_flyweight self s w))) (get_key s) = Some r"
    using get_flyweight_stores by blast
  have "map_of (flyweights (do_calls cs (snd (get_flyweight self s w)))) (get_key s') = Some r"
    using stored assms by (simp add: do_calls_keeps)
  then show ?thesis
    using r by (simp add: get_flyweight_hit)
qed

theorem get_flyweight_again_witness:
  "fst (get_flyweight 0 [''BMW'', ''M5'', ''red''] (do_calls [Construct []] program_start)) = Inr 1 \<and>
   fst (get_flyweight 0 [''BMW'', ''M5'', ''red'']
         (do_calls [Get 0 [''BMW'', ''X1'', ''red''], List 0, Get 0 [''red'', ''M5'', ''BMW'']]
            (snd (get_flyweight 0 [''BMW'', ''M5'', ''red''] (do_calls [Construct []] program_start))))) = Inr 1 \<and>
   heap (snd (get_flyweight 0 [''BMW'', ''M5'', ''red'']
         (do_calls [Get 0 [''BMW'', ''X1'', ''red''], List 0, Get 0 [''red'', ''M5'', ''BMW'']]
            (snd (get_flyweight 0 [''BMW'', ''M5'', ''red''] (do_calls [Construct []] program_start)))))) =
   heap (do_calls [Get 0 [''BMW'', ''X1'', ''red''], List 0, Get 0 [''red'', ''M5'', ''BMW'']]
            (snd (get_flyweight 0 [''BMW'', ''M5'', ''red''] (do_calls [Construct []] program_start))))"
proof -
  have h: "\<forall>c\<in>set [Get 0 [''BMW'', ''X1'', ''red''], List 0, Get 0 [''red'', ''M5'', ''BMW'']].
             get_key [''BMW'', ''M5'', ''red''] \<notin> get_key ` set (seeded c)"
    by simp
  have first: "fst (get_flyweight 0 [''BMW'', ''M5'', ''red''] (do_calls [Construct []] program_start)) = Inr 1"
    by code_simp
  show ?thesis
    using get_flyweight_again [OF h refl, of 0 "do_calls [Construct []] program_start" 0] first
    by auto
qed

lemma init_heap:
  "heap (FlyweightFactory_init self xs w) =
     heap w @ map (\<lambda>t. FlyweightObj \<lparr>shared_state = t\<rparr>) xs"
  by (induction xs arbitrary: w) (simp_all add: new_def)

lemma init_stdout:
  "stdout (FlyweightFactory_init self xs w) = stdout w"
  by (induction xs arbitrary: w) (simp_all add: new_def)

lemma init_lookup:
  assumes "t \<in> set xs"
  shows "\<exists>r t'. map_of (flyweights (FlyweightFactory_init self xs w)) (get_key t) = Some r \<and>
           length (heap w) \<le> r \<and> r < length (heap w) + length xs \<and>
           t' \<in> set xs \<and> get_key t' = get_key t \<and>
           heap (FlyweightFactory_init self xs w) ! r = FlyweightObj \<lparr>shared_state = t'\<rparr>"
  using assms
proof (induction xs arbitrary: w t)
  case Nil
  then show ?case by simp
next
  case (Cons x xs)
  let ?w = "w\<lparr>heap := heap w @ [FlyweightObj \<lparr>shared_state = x\<rparr>],
               flyweights := AList.update (get_key x) (length (heap w)) (flyweights w)\<rparr>"
  have step: "FlyweightFactory_init self (x # xs) w = FlyweightFactory_init self xs ?w"
    by (simp add: new_def)
  show ?case
  proof (cases "get_key t \<in> get_key ` set xs")
    case True
    then obtain u where u: "u \<in> set xs" and ku: "get_key u = get_key t" by auto
    from Cons.IH [OF u, of ?w] obtain r t' where
      "map_of (flyweights (FlyweightFactory_init self xs ?w)) (get_key u) = Some r"
      "length (heap ?w) \<le> r" "r < length (heap ?w) + length xs"
      "t' \<in> set xs" "get_key t' = get_key u"
      "heap (FlyweightFactory_init self xs ?w) ! r = FlyweightObj \<lparr>shared_state = t'\<rparr>"
      by blast
    then show ?thesis
      unfolding step using ku by (intro exI [of _ r] exI [of _ t']) simp
  next
    case False
    with Cons.prems have tx: "t = x" by auto
    have "map_of (flyweights ?w) (get_key x) = Some (length (heap w))"
      by (simp add: update_conv')
    then have "map_of (flyweights (FlyweightFactory_init self xs ?w)) (get_key x) =
                 Some (length (heap w))"
      using False tx by (intro init_keeps) simp_all
    moreover have "heap (FlyweightFactory_init self xs ?w) ! length (heap w) =
                     FlyweightObj \<lparr>shared_state = x\<rparr>"
      by (simp add: init_heap nth_append)
    ultimately show ?thesis
      unfolding step using tx by (intro exI [of _ "length (heap w)"] exI [of _ x]) simp
  qed
qed

lemma FlyweightFactory_eq:
  "FlyweightFactory xs w =
     (length (heap w),
      FlyweightFactory_init (length (heap w)) xs (w\<lparr>heap := heap w @ [FlyweightFactoryObj]\<rparr>))"
  by (simp add: FlyweightFactory_def new_def)

lemma update_fresh:
  "map_of al k = None \<Longrightarrow> AList.update k v al = al @ [(k, v)]"
  by (induction al) (auto split: if_splits)

lemma keys_card:
  assumes "distinct (map fst al)"
  shows "length al = card (fst ` set al)"
proof -
  have "card (set (map fst al)) = length (map fst al)"
    using assms by (rule distinct_card)
  then show ?thesis by simp
qed

text \<open>
  C9. \<^verbatim>\<open>_flyweights\<close> is one dictionary of the class. Let a first factory \<open>f1\<close> be
  constructed with the initial states \<open>init1\<close> in any world \<open>w\<close>, and then a second
  factory \<open>f2\<close> with \<open>init2\<close>, giving the world \<open>w2\<close>. Then:

    \<^item> \<open>f1\<close> and \<open>f2\<close> are two different factory objects;

    \<^item> the second construction does not start empty: the keys of the dictionary are those
      it had in \<open>w\<close>, those of \<open>init1\<close> and those of \<open>init2\<close>, and every entry
      present before the second construction whose key \<open>init2\<close> does not seed again
      still refers to the same object;

    \<^item> a state seeded through \<open>f1\<close> is found through \<open>f2\<close>:
      \<open>get_flyweight\<close> on \<open>f2\<close> returns a Flyweight of the heap that holds a state
      with that key, and only prints the reuse message; unless \<open>init2\<close> seeds the key
      again, it is a Flyweight that the constructor of \<open>f1\<close> allocated, holding a state
      of \<open>init1\<close>;

    \<^item> a state seeded through \<open>f2\<close> is found in the same way through \<open>f1\<close>;

    \<^item> a state \<open>s\<close> with no entry is created by \<open>get_flyweight\<close> on \<open>f1\<close> as a
      new object at the end of the heap; the same request on \<open>f2\<close> then returns
      that object and constructs nothing, and \<open>list_flyweights\<close> on \<open>f2\<close> counts
      and lists it;

    \<^item> when the keys in \<open>w\<close> are distinct (as in every world reached from the empty
      dictionary), \<open>list_flyweights\<close> on \<open>f1\<close> prints as its count the number of
      keys of \<open>w\<close>, \<open>init1\<close> and \<open>init2\<close> together, followed by all these keys.
\<close>

theorem factories_share_one_cache:
  assumes "FlyweightFactory init1 w = (f1, w1)"
    and "FlyweightFactory init2 w1 = (f2, w2)"
  shows
    "f1 \<noteq> f2 \<and> f1 < length (heap w2) \<and> f2 < length (heap w2) \<and>
     heap w2 ! f1 = FlyweightFactoryObj \<and> heap w2 ! f2 = FlyweightFactoryObj \<and>
     fst ` set (flyweights w2) =
       fst ` set (flyweights w) \<union> get_key ` set init1 \<union> get_key ` set init2 \<and>
     (\<forall>k r. map_of (flyweights w1) k = Some r \<and> k \<notin> get_key ` set init2 \<longrightarrow>
            map_of (flyweights w2) k = Some r) \<and>
     (\<forall>t\<in>set init1.
        (\<exists>r t'. f1 < r \<and> r < length (heap w2) \<and> get_key t' = get_key t \<and>
           heap w2 ! r = FlyweightObj \<lparr>shared_state = t'\<rparr> \<and>
           (get_key t \<notin> get_key ` set init2 \<longrightarrow> r < f2 \<and> t' \<in> set init1) \<and>
           get_flyweight f2 t w2 =
             (Inr r, w2\<lparr>stdout := py_print ''FlyweightFactory: Reusing existing flyweight.''
                                   (stdout w2)\<rparr>))) \<and>
     (\<forall>t\<in>set init2.
        (\<exists>r t'. f2 < r \<and> r < length (heap w2) \<and> t' \<in> set init2 \<and> get_key t' = get_key t \<and>
           heap w2 ! r = FlyweightObj \<lparr>shared_state = t'\<rparr> \<and>
           get_flyweight f1 t w2 =
             (Inr r, w2\<lparr>stdout := py_print ''FlyweightFactory: Reusing existing flyweight.''
                                   (stdout w2)\<rparr>))) \<and>
     (map_of (flyweights w2) (get_key s) = None \<longrightarrow>
        fst (get_flyweight f1 s w2) = Inr (length (heap w2)) \<and>
        heap (snd (get_flyweight f1 s w2)) = heap w2 @ [FlyweightObj \<lparr>shared_state = s\<rparr>] \<and>
        flyweights (snd (get_flyweight f1 s w2)) =
          flyweights w2 @ [(get_key s, length (heap w2))] \<and>
        get_flyweight f2 s (snd (get_flyweight f1 s w2)) =
          (Inr (length (heap w2)),
           (snd (get_flyweight f1 s w2))
             \<lparr>stdout := py_print ''FlyweightFactory: Reusing existing flyweight.''
                (stdout (snd (get_flyweight f1 s w2)))\<rparr>) \<and>
        stdout (list_flyweights f2 (snd (get_flyweight f1 s w2))) =
          stdout (snd (get_flyweight f1 s w2)) @ ''FlyweightFactory: I have '' @
          str_nat (length (flyweights w2) + 1) @ '' flyweights:'' @ ''\<newline>'' @
          join ''\<newline>'' (map fst (flyweights w2) @ [get_key s])) \<and>
     (distinct (map fst (flyweights w)) \<longrightarrow>
        length (flyweights w2) =
          card (fst ` set (flyweights w) \<union> get_key ` set init1 \<union> get_key ` set init2) \<and>
        stdout (list_flyweights f1 w2) =
          stdout w @ ''FlyweightFactory: I have '' @
          str_nat (card (fst ` set (flyweights w) \<union> get_key ` set init1 \<union>
                         get_key ` set init2)) @
          '' flyweights:'' @ ''\<newline>'' @ join ''\<newline>'' (map fst (flyweights w2)))"
proof -
  let ?reuse = "\<lambda>v. v\<lparr>stdout := py_print ''FlyweightFactory: Reusing existing flyweight.''
                                  (stdout v)\<rparr>"
  let ?v = "w\<lparr>heap := heap w @ [FlyweightFactoryObj]\<rparr>"
  let ?v1 = "w1\<lparr>heap := heap w1 @ [FlyweightFactoryObj]\<rparr>"
  from assms(1) have f1: "f1 = length (heap w)"
    and w1: "w1 = FlyweightFactory_init f1 init1 ?v"
    by (auto simp: FlyweightFactory_eq)
  from assms(2) have f2: "f2 = length (heap w1)"
    and w2: "w2 = FlyweightFactory_init f2 init2 ?v1"
    by (auto simp: FlyweightFactory_eq)
  have h1: "heap w1 = heap w @ FlyweightFactoryObj #
              map (\<lambda>t. FlyweightObj \<lparr>shared_state = t\<rparr>) init1"
    by (simp add: w1 init_heap)
  have h2: "heap w2 = heap w1 @ FlyweightFactoryObj #
              map (\<lambda>t. FlyweightObj \<lparr>shared_state = t\<rparr>) init2"
    by (simp add: w2 init_heap)
  have len: "f2 = f1 + 1 + length init1"
    by (simp add: f2 f1 h1)
  have objects: "f1 \<noteq> f2 \<and> f1 < length (heap w2) \<and> f2 < length (heap w2) \<and>
     heap w2 ! f1 = FlyweightFactoryObj \<and> heap w2 ! f2 = FlyweightFactoryObj"
    by (simp add: h2 h1 f1 f2 nth_append)
  have k1: "fst ` set (flyweights w1) = fst ` set (flyweights w) \<union> get_key ` set init1"
    by (simp add: w1 init_keys)
  have keys: "fst ` set (flyweights w2) =
       fst ` set (flyweights w) \<union> get_key ` set init1 \<union> get_key ` set init2"
    by (simp add: w2 init_keys k1)
  have keeps: "\<forall>k r. map_of (flyweights w1) k = Some r \<and> k \<notin> get_key ` set init2 \<longrightarrow>
            map_of (flyweights w2) k = Some r"
    by (simp add: w2 init_keeps)
  have first: "\<forall>t\<in>set init1.
        (\<exists>r t'. f1 < r \<and> r < length (heap w2) \<and> get_key t' = get_key t \<and>
           heap w2 ! r = FlyweightObj \<lparr>shared_state = t'\<rparr> \<and>
           (get_key t \<notin> get_key ` set init2 \<longrightarrow> r < f2 \<and> t' \<in> set init1) \<and>
           get_flyweight f2 t w2 = (Inr r, ?reuse w2))"
  proof
    fix t assume t: "t \<in> set init1"
    show "\<exists>r t'. f1 < r \<and> r < length (heap w2) \<and> get_key t' = get_key t \<and>
           heap w2 ! r = FlyweightObj \<lparr>shared_state = t'\<rparr> \<and>
           (get_key t \<notin> get_key ` set init2 \<longrightarrow> r < f2 \<and> t' \<in> set init1) \<and>
           get_flyweight f2 t w2 = (Inr r, ?reuse w2)"
    proof (cases "get_key t \<in> get_key ` set init2")
      case False
      from init_lookup [OF t, of f1 ?v] obtain r t' where
        r: "map_of (flyweights w1) (get_key t) = Some r"
        and lo: "length (heap ?v) \<le> r" and hi: "r < length (heap ?v) + length init1"
        and t': "t' \<in> set init1" "get_key t' = get_key t"
        and obj: "heap w1 ! r = FlyweightObj \<lparr>shared_state = t'\<rparr>"
        unfolding w1 [symmetric] by blast
      from lo hi have bounds: "f1 < r" "r < f2"
        by (simp_all add: f1 len)
      then have in_w1: "r < length (heap w1)" by (simp add: f2)
      then have "heap w2 ! r = FlyweightObj \<lparr>shared_state = t'\<rparr>"
        using obj by (simp add: h2 nth_append)
      moreover have "r < length (heap w2)"
        using in_w1 by (simp add: h2)
      moreover have "map_of (flyweights w2) (get_key t) = Some r"
        using keeps r False by blast
      then have "get_flyweight f2 t w2 = (Inr r, ?reuse w2)"
        by (rule get_flyweight_hit)
      ultimately show ?thesis
        using bounds t' by blast
    next
      case True
      then obtain u where u: "u \<in> set init2" and ku: "get_key u = get_key t"
        by auto
      from init_lookup [OF u, of f2 ?v1] obtain r t' where
        r: "map_of (flyweights w2) (get_key u) = Some r"
        and lo: "length (heap ?v1) \<le> r" and hi: "r < length (heap ?v1) + length init2"
        and t': "get_key t' = get_key u"
        and obj: "heap w2 ! r = FlyweightObj \<lparr>shared_state = t'\<rparr>"
        unfolding w2 [symmetric] by blast
      from lo hi have bounds: "f1 < r" "r < length (heap w2)"
        by (simp_all add: f2 f1 h2 h1)
      have "get_flyweight f2 t w2 = (Inr r, ?reuse w2)"
        using r ku by (intro get_flyweight_hit) simp
      then show ?thesis
        using bounds t' ku obj True by (intro exI [of _ r] exI [of _ t']) simp
    qed
  qed
  have second: "\<forall>t\<in>set init2.
        (\<exists>r t'. f2 < r \<and> r < length (heap w2) \<and> t' \<in> set init2 \<and> get_key t' = get_key t \<and>
           heap w2 ! r = FlyweightObj \<lparr>shared_state = t'\<rparr> \<and>
           get_flyweight f1 t w2 = (Inr r, ?reuse w2))"
  proof
    fix t assume t: "t \<in> set init2"
    from init_lookup [OF t, of f2 ?v1] obtain r t' where
      r: "map_of (flyweights w2) (get_key t) = Some r"
      and lo: "length (heap ?v1) \<le> r" and hi: "r < length (heap ?v1) + length init2"
      and t': "t' \<in> set init2" "get_key t' = get_key t"
      and obj: "heap w2 ! r = FlyweightObj \<lparr>shared_state = t'\<rparr>"
      unfolding w2 [symmetric] by blast
    from lo hi have bounds: "f2 < r" "r < length (heap w2)"
      by (simp_all add: f2 h2)
    have "get_flyweight f1 t w2 = (Inr r, ?reuse w2)"
      using r by (rule get_flyweight_hit)
    then show "\<exists>r t'. f2 < r \<and> r < length (heap w2) \<and> t' \<in> set init2 \<and> get_key t' = get_key t \<and>
           heap w2 ! r = FlyweightObj \<lparr>shared_state = t'\<rparr> \<and>
           get_flyweight f1 t w2 = (Inr r, ?reuse w2)"
      using bounds t' obj by blast
  qed
  have created: "map_of (flyweights w2) (get_key s) = None \<longrightarrow>
        fst (get_flyweight f1 s w2) = Inr (length (heap w2)) \<and>
        heap (snd (get_flyweight f1 s w2)) = heap w2 @ [FlyweightObj \<lparr>shared_state = s\<rparr>] \<and>
        flyweights (snd (get_flyweight f1 s w2)) =
          flyweights w2 @ [(get_key s, length (heap w2))] \<and>
        get_flyweight f2 s (snd (get_flyweight f1 s w2)) =
          (Inr (length (heap w2)), ?reuse (snd (get_flyweight f1 s w2))) \<and>
        stdout (list_flyweights f2 (snd (get_flyweight f1 s w2))) =
          stdout (snd (get_flyweight f1 s w2)) @ ''FlyweightFactory: I have '' @
          str_nat (length (flyweights w2) + 1) @ '' flyweights:'' @ ''\<newline>'' @
          join ''\<newline>'' (map fst (flyweights w2) @ [get_key s])"
  proof
    assume none: "map_of (flyweights w2) (get_key s) = None"
    let ?w3 = "snd (get_flyweight f1 s w2)"
    have a: "fst (get_flyweight f1 s w2) = Inr (length (heap w2))"
      and b: "heap ?w3 = heap w2 @ [FlyweightObj \<lparr>shared_state = s\<rparr>]"
      and c: "flyweights ?w3 = flyweights w2 @ [(get_key s, length (heap w2))]"
      using none by (simp_all add: get_flyweight_miss update_fresh)
    have "map_of (flyweights ?w3) (get_key s) = Some (length (heap w2))"
      using none by (simp add: c map_add_def)
    then have d: "get_flyweight f2 s ?w3 = (Inr (length (heap w2)), ?reuse ?w3)"
      by (rule get_flyweight_hit)
    have e: "stdout (list_flyweights f2 ?w3) =
          stdout ?w3 @ ''FlyweightFactory: I have '' @
          str_nat (length (flyweights w2) + 1) @ '' flyweights:'' @ ''\<newline>'' @
          join ''\<newline>'' (map fst (flyweights w2) @ [get_key s])"
      by (simp add: list_flyweights_stdout c)
    from a b c d e show "fst (get_flyweight f1 s w2) = Inr (length (heap w2)) \<and>
        heap ?w3 = heap w2 @ [FlyweightObj \<lparr>shared_state = s\<rparr>] \<and>
        flyweights ?w3 = flyweights w2 @ [(get_key s, length (heap w2))] \<and>
        get_flyweight f2 s ?w3 = (Inr (length (heap w2)), ?reuse ?w3) \<and>
        stdout (list_flyweights f2 ?w3) =
          stdout ?w3 @ ''FlyweightFactory: I have '' @
          str_nat (length (flyweights w2) + 1) @ '' flyweights:'' @ ''\<newline>'' @
          join ''\<newline>'' (map fst (flyweights w2) @ [get_key s])"
      by (simp only: simp_thms)
  qed
  have counted: "distinct (map fst (flyweights w)) \<longrightarrow>
        length (flyweights w2) =
          card (fst ` set (flyweights w) \<union> get_key ` set init1 \<union> get_key ` set init2) \<and>
        stdout (list_flyweights f1 w2) =
          stdout w @ ''FlyweightFactory: I have '' @
          str_nat (card (fst ` set (flyweights w) \<union> get_key ` set init1 \<union>
                         get_key ` set init2)) @
          '' flyweights:'' @ ''\<newline>'' @ join ''\<newline>'' (map fst (flyweights w2))"
  proof
    assume d: "distinct (map fst (flyweights w))"
    have "distinct (map fst (flyweights w1))"
      unfolding w1 by (rule init_distinct) (simp add: d)
    then have "distinct (map fst (flyweights w2))"
      unfolding w2 by (intro init_distinct) simp
    then have n: "length (flyweights w2) =
          card (fst ` set (flyweights w) \<union> get_key ` set init1 \<union> get_key ` set init2)"
      by (simp only: keys_card keys)
    have out: "stdout w2 = stdout w"
      by (simp add: w2 w1 init_stdout)
    show "length (flyweights w2) =
          card (fst ` set (flyweights w) \<union> get_key ` set init1 \<union> get_key ` set init2) \<and>
        stdout (list_flyweights f1 w2) =
          stdout w @ ''FlyweightFactory: I have '' @
          str_nat (card (fst ` set (flyweights w) \<union> get_key ` set init1 \<union>
                         get_key ` set init2)) @
          '' flyweights:'' @ ''\<newline>'' @ join ''\<newline>'' (map fst (flyweights w2))"
      using n by (simp add: list_flyweights_stdout out)
  qed
  from objects keys keeps first second created counted show ?thesis
    by (simp only: simp_thms)
qed

text \<open>
  From the empty dictionary: the first factory is object 0 and seeds BMW M5 red as
  object 1, the second factory is object 2 and seeds BMW X6 white as object 3. Each
  finds the other's flyweight; BMW X1 red, created through the first as object 4, is
  what the second returns; the first one lists both seeded flyweights.
\<close>

theorem factories_share_one_cache_witness:
  "FlyweightFactory [[''BMW'', ''M5'', ''red'']] program_start =
     (0, \<lparr>heap = [FlyweightFactoryObj, FlyweightObj \<lparr>shared_state = [''BMW'', ''M5'', ''red'']\<rparr>],
          flyweights = [(''BMW_M5_red'', 1)], stdout = ''''\<rparr>) \<and>
   FlyweightFactory [[''BMW'', ''X6'', ''white'']]
     \<lparr>heap = [FlyweightFactoryObj, FlyweightObj \<lparr>shared_state = [''BMW'', ''M5'', ''red'']\<rparr>],
      flyweights = [(''BMW_M5_red'', 1)], stdout = ''''\<rparr> =
     (2, \<lparr>heap = [FlyweightFactoryObj, FlyweightObj \<lparr>shared_state = [''BMW'', ''M5'', ''red'']\<rparr>,
                  FlyweightFactoryObj, FlyweightObj \<lparr>shared_state = [''BMW'', ''X6'', ''white'']\<rparr>],
          flyweights = [(''BMW_M5_red'', 1), (''BMW_X6_white'', 3)], stdout = ''''\<rparr>) \<and>
   fst (get_flyweight 2 [''BMW'', ''M5'', ''red'']
     \<lparr>heap = [FlyweightFactoryObj, FlyweightObj \<lparr>shared_state = [''BMW'', ''M5'', ''red'']\<rparr>,
              FlyweightFactoryObj, FlyweightObj \<lparr>shared_state = [''BMW'', ''X6'', ''white'']\<rparr>],
      flyweights = [(''BMW_M5_red'', 1), (''BMW_X6_white'', 3)], stdout = ''''\<rparr>) = Inr 1 \<and>
   fst (get_flyweight 0 [''BMW'', ''X6'', ''white'']
     \<lparr>heap = [FlyweightFactoryObj, FlyweightObj \<lparr>shared_state = [''BMW'', ''M5'', ''red'']\<rparr>,
              FlyweightFactoryObj, FlyweightObj \<lparr>shared_state = [''BMW'', ''X6'', ''white'']\<rparr>],
      flyweights = [(''BMW_M5_red'', 1), (''BMW_X6_white'', 3)], stdout = ''''\<rparr>) = Inr 3 \<and>
   get_flyweight 2 [''BMW'', ''X1'', ''red'']
     (snd (get_flyweight 0 [''BMW'', ''X1'', ''red'']
        \<lparr>heap = [FlyweightFactoryObj, FlyweightObj \<lparr>shared_state = [''BMW'', ''M5'', ''red'']\<rparr>,
                 FlyweightFactoryObj, FlyweightObj \<lparr>shared_state = [''BMW'', ''X6'', ''white'']\<rparr>],
         flyweights = [(''BMW_M5_red'', 1), (''BMW_X6_white'', 3)], stdout = ''''\<rparr>)) =
     (Inr 4,
      \<lparr>heap = [FlyweightFactoryObj, FlyweightObj \<lparr>shared_state = [''BMW'', ''M5'', ''red'']\<rparr>,
               FlyweightFactoryObj, FlyweightObj \<lparr>shared_state = [''BMW'', ''X6'', ''white'']\<rparr>,
               FlyweightObj \<lparr>shared_state = [''BMW'', ''X1'', ''red'']\<rparr>],
       flyweights = [(''BMW_M5_red'', 1), (''BMW_X6_white'', 3), (''BMW_X1_red'', 4)],
       stdout = ''FlyweightFactory: Can't find a flyweight, creating new one.'' @ ''\<newline>'' @
                ''FlyweightFactory: Reusing existing flyweight.'' @ ''\<newline>''\<rparr>) \<and>
   stdout (list_flyweights 0
     \<lparr>heap = [FlyweightFactoryObj, FlyweightObj \<lparr>shared_state = [''BMW'', ''M5'', ''red'']\<rparr>,
              FlyweightFactoryObj, FlyweightObj \<lparr>shared_state = [''BMW'', ''X6'', ''white'']\<rparr>],
      flyweights = [(''BMW_M5_red'', 1), (''BMW_X6_white'', 3)], stdout = ''''\<rparr>) =
     ''FlyweightFactory: I have 2 flyweights:'' @ ''\<newline>'' @
     ''BMW_M5_red'' @ ''\<newline>'' @ ''BMW_X6_white''"
proof -
  let ?m5 = "[''BMW'', ''M5'', ''red'']"
  let ?x6 = "[''BMW'', ''X6'', ''white'']"
  let ?x1 = "[''BMW'', ''X1'', ''red'']"
  let ?w1 = "\<lparr>heap = [FlyweightFactoryObj, FlyweightObj \<lparr>shared_state = ?m5\<rparr>],
             flyweights = [(''BMW_M5_red'', 1)], stdout = ''''\<rparr>"
  let ?w2 = "\<lparr>heap = [FlyweightFactoryObj, FlyweightObj \<lparr>shared_state = ?m5\<rparr>,
                     FlyweightFactoryObj, FlyweightObj \<lparr>shared_state = ?x6\<rparr>],
             flyweights = [(''BMW_M5_red'', 1), (''BMW_X6_white'', 3)], stdout = ''''\<rparr>"
  have a: "FlyweightFactory [?m5] program_start = (0, ?w1)"
    by code_simp
  have b: "FlyweightFactory [?x6] ?w1 = (2, ?w2)"
    by code_simp
  note shared = factories_share_one_cache [OF a b, of ?x1]
  note rest = shared [THEN conjunct2, THEN conjunct2, THEN conjunct2, THEN conjunct2,
    THEN conjunct2, THEN conjunct2, THEN conjunct2]
  note first = rest [THEN conjunct1]
  note second = rest [THEN conjunct2, THEN conjunct1]
  note created = rest [THEN conjunct2, THEN conjunct2, THEN conjunct1]
  note counted = rest [THEN conjunct2, THEN conjunct2, THEN conjunct2]
  have none: "map_of (flyweights ?w2) (get_key ?x1) = None"
    by (simp add: get_key_def)
  have d: "distinct (map fst (flyweights program_start))"
    by (simp add: program_start_def)
  have n: "card (fst ` set (flyweights program_start) \<union> get_key ` set [?m5] \<union>
                 get_key ` set [?x6]) = 2"
    by (simp add: program_start_def get_key_def)
  have two: "str_nat 2 = ''2''"
    by code_simp
  have "?m5 \<in> set [?m5]" and "get_key ?m5 \<notin> get_key ` set [?x6]"
    by (simp_all add: get_key_def)
  with first obtain r where "r < 2 \<and> 0 < r"
    and "get_flyweight 2 ?m5 ?w2 =
           (Inr r, ?w2\<lparr>stdout := py_print ''FlyweightFactory: Reusing existing flyweight.''
                                    (stdout ?w2)\<rparr>)"
    by blast
  then have c1: "fst (get_flyweight 2 ?m5 ?w2) = Inr 1"
    by (cases "r = 1") simp_all
  have "?x6 \<in> set [?x6]" and l: "length (heap ?w2) = 4"
    by simp_all
  with second obtain r where "2 < r" "r < 4"
    and "get_flyweight 0 ?x6 ?w2 =
           (Inr r, ?w2\<lparr>stdout := py_print ''FlyweightFactory: Reusing existing flyweight.''
                                    (stdout ?w2)\<rparr>)"
    by metis
  then have c2: "fst (get_flyweight 0 ?x6 ?w2) = Inr 3"
    by (cases "r = 3") simp_all
  from created none have "get_flyweight 2 ?x1 (snd (get_flyweight 0 ?x1 ?w2)) =
     (Inr (length (heap ?w2)), (snd (get_flyweight 0 ?x1 ?w2))
        \<lparr>stdout := py_print ''FlyweightFactory: Reusing existing flyweight.''
           (stdout (snd (get_flyweight 0 ?x1 ?w2)))\<rparr>)"
    by blast
  then have c3: "get_flyweight 2 ?x1 (snd (get_flyweight 0 ?x1 ?w2)) =
     (Inr 4, (snd (get_flyweight 0 ?x1 ?w2))
        \<lparr>stdout := py_print ''FlyweightFactory: Reusing existing flyweight.''
           (stdout (snd (get_flyweight 0 ?x1 ?w2)))\<rparr>)"
    by (simp only: l)
  have c4: "snd (get_flyweight 0 ?x1 ?w2) =
      \<lparr>heap = [FlyweightFactoryObj, FlyweightObj \<lparr>shared_state = ?m5\<rparr>,
               FlyweightFactoryObj, FlyweightObj \<lparr>shared_state = ?x6\<rparr>,
               FlyweightObj \<lparr>shared_state = ?x1\<rparr>],
       flyweights = [(''BMW_M5_red'', 1), (''BMW_X6_white'', 3), (''BMW_X1_red'', 4)],
       stdout = ''FlyweightFactory: Can't find a flyweight, creating new one.'' @ ''\<newline>''\<rparr>"
    by code_simp
  from counted d have "stdout (list_flyweights 0 ?w2) =
          stdout program_start @ ''FlyweightFactory: I have '' @
          str_nat (card (fst ` set (flyweights program_start) \<union> get_key ` set [?m5] \<union>
                         get_key ` set [?x6])) @
          '' flyweights:'' @ ''\<newline>'' @ join ''\<newline>'' (map fst (flyweights ?w2))"
    by blast
  then have c5: "stdout (list_flyweights 0 ?w2) =
     ''FlyweightFactory: I have 2 flyweights:'' @ ''\<newline>'' @
     ''BMW_M5_red'' @ ''\<newline>'' @ ''BMW_X6_white''"
    by (simp only: n two) (simp add: program_start_def)
  from c3 have c6: "get_flyweight 2 ?x1 (snd (get_flyweight 0 ?x1 ?w2)) =
     (Inr 4,
      \<lparr>heap = [FlyweightFactoryObj, FlyweightObj \<lparr>shared_state = ?m5\<rparr>,
               FlyweightFactoryObj, FlyweightObj \<lparr>shared_state = ?x6\<rparr>,
               FlyweightObj \<lparr>shared_state = ?x1\<rparr>],
       flyweights = [(''BMW_M5_red'', 1), (''BMW_X6_white'', 3), (''BMW_X1_red'', 4)],
       stdout = ''FlyweightFactory: Can't find a flyweight, creating new one.'' @ ''\<newline>'' @
                ''FlyweightFactory: Reusing existing flyweight.'' @ ''\<newline>''\<rparr>)"
    unfolding c4 by (simp add: py_print_def)
  from a b c1 c2 c6 c5 show ?thesis
    by (intro conjI)
qed

subsection \<open>The main block\<close>

lemma order_keys:
  assumes "\<forall>n xs. set (order n xs) = set xs"
    and "xs \<noteq> []" and "ys \<noteq> []"
    and "\<forall>x\<in>set xs. CHR ''_'' \<notin> set x" and "\<forall>y\<in>set ys. CHR ''_'' \<notin> set y"
  shows "(get_key (order i xs) = get_key (order j ys)) = (order i xs = order j ys)"
proof
  assume k: "get_key (order i xs) = get_key (order j ys)"
  have sx: "set (order i xs) = set xs" and sy: "set (order j ys) = set ys"
    using assms(1) by simp_all
  have "order i xs \<noteq> []" and "order j ys \<noteq> []"
    using sx sy assms(2,3) by auto
  moreover have "\<forall>x\<in>set (order i xs). CHR ''_'' \<notin> set x"
    and "\<forall>y\<in>set (order j ys). CHR ''_'' \<notin> set y"
    using sx sy assms(4,5) by simp_all
  moreover have "join [CHR ''_''] (order i xs) = join [CHR ''_''] (order j ys)"
    using k by (simp add: get_key_def)
  ultimately show "order i xs = order j ys"
    by (intro join_inject [of _ "CHR ''_''"]) 
next
  assume "order i xs = order j ys"
  then show "get_key (order i xs) = get_key (order j ys)" by simp
qed

lemma order_differs:
  assumes "\<forall>n xs. set (order n xs) = set xs" and "\<not> (set xs \<subseteq> set ys \<and> set ys \<subseteq> set xs)"
  shows "(order i xs = order j ys) = False"
proof -
  have "set (order i xs) = set xs" and "set (order j ys) = set ys"
    using assms(1) by simp_all
  with assms(2) show ?thesis by auto
qed

lemma str_nat_digits:
  "str_nat 5 = ''5''" "str_nat 6 = ''6''" "str_nat 7 = ''7''"
  by code_simp+

lemma flyweight_main_seeded:
  assumes "\<forall>n xs. set (order n xs) = set xs"
  shows "FlyweightFactory
            [order 0 [''Chevrolet'', ''Camaro2018'', ''pink''],
             order 1 [''Mercedes Benz'', ''C300'', ''black''],
             order 2 [''Mercedes Benz'', ''C500'', ''red''],
             order 3 [''BMW'', ''M5'', ''red''],
             order 4 [''BMW'', ''X6'', ''white'']] program_start =
         (0, \<lparr>heap = [FlyweightFactoryObj,
                FlyweightObj \<lparr>shared_state = order 0 [''Chevrolet'', ''Camaro2018'', ''pink'']\<rparr>,
                FlyweightObj \<lparr>shared_state = order 1 [''Mercedes Benz'', ''C300'', ''black'']\<rparr>,
                FlyweightObj \<lparr>shared_state = order 2 [''Mercedes Benz'', ''C500'', ''red'']\<rparr>,
                FlyweightObj \<lparr>shared_state = order 3 [''BMW'', ''M5'', ''red'']\<rparr>,
                FlyweightObj \<lparr>shared_state = order 4 [''BMW'', ''X6'', ''white'']\<rparr>],
              flyweights =
                [(get_key (order 0 [''Chevrolet'', ''Camaro2018'', ''pink'']), 1),
                 (get_key (order 1 [''Mercedes Benz'', ''C300'', ''black'']), 2),
                 (get_key (order 2 [''Mercedes Benz'', ''C500'', ''red'']), 3),
                 (get_key (order 3 [''BMW'', ''M5'', ''red'']), 4),
                 (get_key (order 4 [''BMW'', ''X6'', ''white'']), 5)],
              stdout = ''''\<rparr>)"
  by (simp add: FlyweightFactory_def new_def program_start_def
        order_keys [OF assms] order_differs [OF assms])

lemma str_nat_Suc:
  "str_nat (Suc (Suc (Suc (Suc (Suc 0))))) = ''5''"
  "str_nat (Suc (Suc (Suc (Suc (Suc (Suc 0)))))) = ''6''"
  "str_nat (Suc (Suc (Suc (Suc (Suc (Suc (Suc 0))))))) = ''7''"
  using str_nat_digits by (simp_all add: numeral_eq_Suc)

lemma flyweight_main_reusing:
  assumes "\<forall>n xs. set (order n xs) = set xs"
    and "order 5 [''BMW'', ''M5'', ''red''] = order 3 [''BMW'', ''M5'', ''red'']"
  shows "flyweight_main order = Inr (flyweight_output order)"
  unfolding flyweight_main_def flyweight_main_seeded [OF assms(1)]
  by (simp add: Let_def list_flyweights_def add_car_to_police_database_def get_flyweight_def
        new_def operation_def py_print_def py_print_end_def str_nat_digits str_nat_Suc
        order_keys [OF assms(1)] order_differs [OF assms(1)] assms(2)
        flyweight_output_def listing_def adding_def seeded_keys_def)

lemma flyweight_main_reordered:
  assumes "\<forall>n xs. set (order n xs) = set xs"
    and "order 5 [''BMW'', ''M5'', ''red''] \<noteq> order 3 [''BMW'', ''M5'', ''red'']"
  shows "flyweight_main order = Inr (flyweight_output_reordered order)"
  unfolding flyweight_main_def flyweight_main_seeded [OF assms(1)]
  by (simp add: Let_def list_flyweights_def add_car_to_police_database_def get_flyweight_def
        new_def operation_def py_print_def py_print_end_def str_nat_digits str_nat_Suc
        order_keys [OF assms(1)] order_differs [OF assms(1)] assms(2) assms(2) [symmetric]
        flyweight_output_reordered_def listing_def adding_def seeded_keys_def)

lemma flyweight_main_runs:
  "flyweight_main as_written = Inr (flyweight_output as_written)"
  "flyweight_main backwards = Inr (flyweight_output backwards)"
  "flyweight_main request_backwards = Inr (flyweight_output_reordered request_backwards)"
  by (simp_all add: flyweight_main_reusing flyweight_main_reordered
        as_written_def backwards_def request_backwards_def)

lemma flyweight_output_text:
  "flyweight_output as_written =
     ''FlyweightFactory: I have 5 flyweights:'' @ ''\<newline>'' @
     ''Chevrolet_Camaro2018_pink'' @ ''\<newline>'' @
     ''Mercedes Benz_C300_black'' @ ''\<newline>'' @
     ''Mercedes Benz_C500_red'' @ ''\<newline>'' @
     ''BMW_M5_red'' @ ''\<newline>'' @
     ''BMW_X6_white'' @ ''\<newline>'' @ ''\<newline>'' @
     ''Client: Adding a car to database.'' @ ''\<newline>'' @
     ''FlyweightFactory: Reusing existing flyweight.'' @ ''\<newline>'' @
     ''Flyweight: Displaying shared ({'BMW', 'M5', 'red'}) and unique ({'CL234IR', 'James Doe'}) state.'' @
     ''\<newline>'' @ ''\<newline>'' @
     ''Client: Adding a car to database.'' @ ''\<newline>'' @
     ''FlyweightFactory: Can't find a flyweight, creating new one.'' @ ''\<newline>'' @
     ''Flyweight: Displaying shared ({'BMW', 'X1', 'red'}) and unique ({'CL234IR', 'James Doe'}) state.'' @
     ''\<newline>'' @ ''\<newline>'' @
     ''FlyweightFactory: I have 6 flyweights:'' @ ''\<newline>'' @
     ''Chevrolet_Camaro2018_pink'' @ ''\<newline>'' @
     ''Mercedes Benz_C300_black'' @ ''\<newline>'' @
     ''Mercedes Benz_C500_red'' @ ''\<newline>'' @
     ''BMW_M5_red'' @ ''\<newline>'' @
     ''BMW_X6_white'' @ ''\<newline>'' @
     ''BMW_X1_red''"
  by code_simp

lemma flyweight_output_reordered_text:
  "flyweight_output_reordered request_backwards =
     ''FlyweightFactory: I have 5 flyweights:'' @ ''\<newline>'' @
     ''Chevrolet_Camaro2018_pink'' @ ''\<newline>'' @
     ''Mercedes Benz_C300_black'' @ ''\<newline>'' @
     ''Mercedes Benz_C500_red'' @ ''\<newline>'' @
     ''BMW_M5_red'' @ ''\<newline>'' @
     ''BMW_X6_white'' @ ''\<newline>'' @ ''\<newline>'' @
     ''Client: Adding a car to database.'' @ ''\<newline>'' @
     ''FlyweightFactory: Can't find a flyweight, creating new one.'' @ ''\<newline>'' @
     ''Flyweight: Displaying shared ({'red', 'M5', 'BMW'}) and unique ({'CL234IR', 'James Doe'}) state.'' @
     ''\<newline>'' @ ''\<newline>'' @
     ''Client: Adding a car to database.'' @ ''\<newline>'' @
     ''FlyweightFactory: Can't find a flyweight, creating new one.'' @ ''\<newline>'' @
     ''Flyweight: Displaying shared ({'BMW', 'X1', 'red'}) and unique ({'CL234IR', 'James Doe'}) state.'' @
     ''\<newline>'' @ ''\<newline>'' @
     ''FlyweightFactory: I have 7 flyweights:'' @ ''\<newline>'' @
     ''Chevrolet_Camaro2018_pink'' @ ''\<newline>'' @
     ''Mercedes Benz_C300_black'' @ ''\<newline>'' @
     ''Mercedes Benz_C500_red'' @ ''\<newline>'' @
     ''BMW_M5_red'' @ ''\<newline>'' @
     ''BMW_X6_white'' @ ''\<newline>'' @
     ''red_M5_BMW'' @ ''\<newline>'' @
     ''BMW_X1_red''"
  by code_simp

section \<open>Properties of composite.py\<close>

lemma leaf_ops:
  assumes "l < length h" and "h ! l = LoadNode n p"
  shows "add_node h l c = h" and "remove_node h l c = Inr h"
    and "start_load (Suc d) h l = Inr (n @ '' started load.'' @ ''\<newline>'')"
    and "stop_load (Suc d) h l = Inr (n @ '' stopped load.'' @ ''\<newline>'')"
  using assms by (simp_all add: add_node_def remove_node_def)

text \<open>
  C10. For every leaf \<open>l\<close> of a store \<open>h\<close> (an object of class LoadNode) and every
  component \<open>c\<close>, \<open>add_node\<close> and \<open>remove_node\<close> on \<open>l\<close> raise nothing and
  return the store as it was: \<open>l\<close>, \<open>c\<close> and every other object are unchanged, no
  child is stored and the parent of \<open>c\<close> is not touched. (Both methods have the body
  \<^verbatim>\<open>pass\<close>, so what they return is \<^verbatim>\<open>None\<close>; the model returns the store.)
\<close>

theorem leaf_add_remove_do_nothing:
  assumes "l < length h" and "h ! l = LoadNode n p"
  shows "add_node h l c = h \<and> remove_node h l c = Inr h"
  using assms by (simp add: add_node_def remove_node_def)

theorem leaf_add_remove_do_nothing_witness:
  "0 < length demo_store \<and> demo_store ! 0 = LoadNode ''Simple load node'' None \<and>
   add_node demo_store 0 1 = demo_store \<and> remove_node demo_store 0 1 = Inr demo_store"
proof -
  have a: "0 < length demo_store" by (simp add: demo_store_def)
  have b: "demo_store ! 0 = LoadNode ''Simple load node'' None" by (simp add: demo_store_def)
  show ?thesis
    using leaf_add_remove_do_nothing [OF a b, of 1] a b by simp
qed

text \<open>
  The main block of composite.py, step by step, when the interpreter allows it at least three
  nested calls (the default limit allows about a thousand).
\<close>

lemma main_first_client_code:
  "composite_client_code (Suc (Suc d)) [LoadNode ''Simple load node'' None] 0 '''' =
     Inr (unlines [''Simple load node started load.'', '''',
                   ''Simple load node stopped load.'', ''''])"
  by (simp add: py_print_def unlines_def)

lemma main_client_code2:
  "client_code2 (Suc (Suc (Suc d)))
     [LoadNode ''Simple load node'' None, LoadCluster ''Master Loader'' None []] 1 0 out =
   Inr ([LoadNode ''Simple load node'' (Some (Some 1)), LoadCluster ''Master Loader'' None [0]],
        out @ unlines [''Cluster Master Loader started load:'',
                       ''Simple load node started load.'', '''',
                       ''Cluster Master Loader stopped load:'',
                       ''Simple load node stopped load.'', ''''])"
  by (simp add: is_composite_def add_node_def set_parent_def py_print_def unlines_def)

lemma main_tree_start_load:
  "start_load (Suc (Suc (Suc d)))
   [LoadNode ''Simple load node'' (Some (Some 1)),
          LoadCluster ''Master Loader'' None [0, 2, 3],
          LoadCluster ''Session load cluster'' (Some (Some 1)) [4, 5],
          LoadCluster ''Faults load cluster'' (Some (Some 1)) [6, 7],
          LoadNode ''Session load node 1'' (Some (Some 2)),
          LoadNode ''Session load node 2'' (Some (Some 2)),
          LoadNode ''Faults load node 1'' (Some (Some 3)),
          LoadNode ''Faults load node 2'' (Some (Some 3))]
     1 =
   Inr (unlines [''Cluster Master Loader started load:'',
      ''Simple load node started load.'',
      ''Cluster Session load cluster started load:'',
      ''Session load node 1 started load.'',
      ''Session load node 2 started load.'',
      ''Cluster Faults load cluster started load:'',
      ''Faults load node 1 started load.'',
      ''Faults load node 2 started load.''])"
  by (simp add: unlines_def)

lemma composite_main_output:
  assumes "3 \<le> depth"
  shows "composite_main depth = Inr composite_output"
proof -
  from assms have "depth = Suc (Suc (Suc (depth - 3)))"
    by simp
  then obtain d where depth: "depth = Suc (Suc (Suc d))" ..
  have n0: "new_LoadNode ''Simple load node'' [] = (0, [LoadNode ''Simple load node'' None])"
    by (simp add: new_LoadNode_def)
  have c0: "new_LoadCluster ''Master Loader'' [LoadNode ''Simple load node'' None] =
      (1, [LoadNode ''Simple load node'' None, LoadCluster ''Master Loader'' None []])"
    by (simp add: new_LoadCluster_def)
  have s1: "new_LoadCluster ''Session load cluster''
      [LoadNode ''Simple load node'' (Some (Some 1)),
       LoadCluster ''Master Loader'' None [0]] =
     (2,
      [LoadNode ''Simple load node'' (Some (Some 1)),
       LoadCluster ''Master Loader'' None [0],
       LoadCluster ''Session load cluster'' None []])"
    by (simp add: new_LoadNode_def new_LoadCluster_def add_node_def set_parent_def)
  have s2: "new_LoadCluster ''Faults load cluster''
      [LoadNode ''Simple load node'' (Some (Some 1)),
       LoadCluster ''Master Loader'' None [0],
       LoadCluster ''Session load cluster'' None []] =
     (3,
      [LoadNode ''Simple load node'' (Some (Some 1)),
       LoadCluster ''Master Loader'' None [0],
       LoadCluster ''Session load cluster'' None [],
       LoadCluster ''Faults load cluster'' None []])"
    by (simp add: new_LoadNode_def new_LoadCluster_def add_node_def set_parent_def)
  have s3: "new_LoadNode ''Session load node 1''
      [LoadNode ''Simple load node'' (Some (Some 1)),
       LoadCluster ''Master Loader'' None [0],
       LoadCluster ''Session load cluster'' None [],
       LoadCluster ''Faults load cluster'' None []] =
     (4,
      [LoadNode ''Simple load node'' (Some (Some 1)),
       LoadCluster ''Master Loader'' None [0],
       LoadCluster ''Session load cluster'' None [],
       LoadCluster ''Faults load cluster'' None [],
       LoadNode ''Session load node 1'' None])"
    by (simp add: new_LoadNode_def new_LoadCluster_def add_node_def set_parent_def)
  have s4: "add_node
      [LoadNode ''Simple load node'' (Some (Some 1)),
       LoadCluster ''Master Loader'' None [0],
       LoadCluster ''Session load cluster'' None [],
       LoadCluster ''Faults load cluster'' None [],
       LoadNode ''Session load node 1'' None] 2 4 =
      [LoadNode ''Simple load node'' (Some (Some 1)),
       LoadCluster ''Master Loader'' None [0],
       LoadCluster ''Session load cluster'' None [4],
       LoadCluster ''Faults load cluster'' None [],
       LoadNode ''Session load node 1'' (Some (Some 2))]"
    by (simp add: new_LoadNode_def new_LoadCluster_def add_node_def set_parent_def)
  have s5: "new_LoadNode ''Session load node 2''
      [LoadNode ''Simple load node'' (Some (Some 1)),
       LoadCluster ''Master Loader'' None [0],
       LoadCluster ''Session load cluster'' None [4],
       LoadCluster ''Faults load cluster'' None [],
       LoadNode ''Session load node 1'' (Some (Some 2))] =
     (5,
      [LoadNode ''Simple load node'' (Some (Some 1)),
       LoadCluster ''Master Loader'' None [0],
       LoadCluster ''Session load cluster'' None [4],
       LoadCluster ''Faults load cluster'' None [],
       LoadNode ''Session load node 1'' (Some (Some 2)),
       LoadNode ''Session load node 2'' None])"
    by (simp add: new_LoadNode_def new_LoadCluster_def add_node_def set_parent_def)
  have s6: "add_node
      [LoadNode ''Simple load node'' (Some (Some 1)),
       LoadCluster ''Master Loader'' None [0],
       LoadCluster ''Session load cluster'' None [4],
       LoadCluster ''Faults load cluster'' None [],
       LoadNode ''Session load node 1'' (Some (Some 2)),
       LoadNode ''Session load node 2'' None] 2 5 =
      [LoadNode ''Simple load node'' (Some (Some 1)),
       LoadCluster ''Master Loader'' None [0],
       LoadCluster ''Session load cluster'' None [4, 5],
       LoadCluster ''Faults load cluster'' None [],
       LoadNode ''Session load node 1'' (Some (Some 2)),
       LoadNode ''Session load node 2'' (Some (Some 2))]"
    by (simp add: new_LoadNode_def new_LoadCluster_def add_node_def set_parent_def)
  have s7: "new_LoadNode ''Faults load node 1''
      [LoadNode ''Simple load node'' (Some (Some 1)),
       LoadCluster ''Master Loader'' None [0],
       LoadCluster ''Session load cluster'' None [4, 5],
       LoadCluster ''Faults load cluster'' None [],
       LoadNode ''Session load node 1'' (Some (Some 2)),
       LoadNode ''Session load node 2'' (Some (Some 2))] =
     (6,
      [LoadNode ''Simple load node'' (Some (Some 1)),
       LoadCluster ''Master Loader'' None [0],
       LoadCluster ''Session load cluster'' None [4, 5],
       LoadCluster ''Faults load cluster'' None [],
       LoadNode ''Session load node 1'' (Some (Some 2)),
       LoadNode ''Session load node 2'' (Some (Some 2)),
       LoadNode ''Faults load node 1'' None])"
    by (simp add: new_LoadNode_def new_LoadCluster_def add_node_def set_parent_def)
  have s8: "add_node
      [LoadNode ''Simple load node'' (Some (Some 1)),
       LoadCluster ''Master Loader'' None [0],
       LoadCluster ''Session load cluster'' None [4, 5],
       LoadCluster ''Faults load cluster'' None [],
       LoadNode ''Session load node 1'' (Some (Some 2)),
       LoadNode ''Session load node 2'' (Some (Some 2)),
       LoadNode ''Faults load node 1'' None] 3 6 =
      [LoadNode ''Simple load node'' (Some (Some 1)),
       LoadCluster ''Master Loader'' None [0],
       LoadCluster ''Session load cluster'' None [4, 5],
       LoadCluster ''Faults load cluster'' None [6],
       LoadNode ''Session load node 1'' (Some (Some 2)),
       LoadNode ''Session load node 2'' (Some (Some 2)),
       LoadNode ''Faults load node 1'' (Some (Some 3))]"
    by (simp add: new_LoadNode_def new_LoadCluster_def add_node_def set_parent_def)
  have s9: "new_LoadNode ''Faults load node 2''
      [LoadNode ''Simple load node'' (Some (Some 1)),
       LoadCluster ''Master Loader'' None [0],
       LoadCluster ''Session load cluster'' None [4, 5],
       LoadCluster ''Faults load cluster'' None [6],
       LoadNode ''Session load node 1'' (Some (Some 2)),
       LoadNode ''Session load node 2'' (Some (Some 2)),
       LoadNode ''Faults load node 1'' (Some (Some 3))] =
     (7,
      [LoadNode ''Simple load node'' (Some (Some 1)),
       LoadCluster ''Master Loader'' None [0],
       LoadCluster ''Session load cluster'' None [4, 5],
       LoadCluster ''Faults load cluster'' None [6],
       LoadNode ''Session load node 1'' (Some (Some 2)),
       LoadNode ''Session load node 2'' (Some (Some 2)),
       LoadNode ''Faults load node 1'' (Some (Some 3)),
       LoadNode ''Faults load node 2'' None])"
    by (simp add: new_LoadNode_def new_LoadCluster_def add_node_def set_parent_def)
  have s10: "add_node
      [LoadNode ''Simple load node'' (Some (Some 1)),
       LoadCluster ''Master Loader'' None [0],
       LoadCluster ''Session load cluster'' None [4, 5],
       LoadCluster ''Faults load cluster'' None [6],
       LoadNode ''Session load node 1'' (Some (Some 2)),
       LoadNode ''Session load node 2'' (Some (Some 2)),
       LoadNode ''Faults load node 1'' (Some (Some 3)),
       LoadNode ''Faults load node 2'' None] 3 7 =
      [LoadNode ''Simple load node'' (Some (Some 1)),
       LoadCluster ''Master Loader'' None [0],
       LoadCluster ''Session load cluster'' None [4, 5],
       LoadCluster ''Faults load cluster'' None [6, 7],
       LoadNode ''Session load node 1'' (Some (Some 2)),
       LoadNode ''Session load node 2'' (Some (Some 2)),
       LoadNode ''Faults load node 1'' (Some (Some 3)),
       LoadNode ''Faults load node 2'' (Some (Some 3))]"
    by (simp add: new_LoadNode_def new_LoadCluster_def add_node_def set_parent_def)
  have s11: "add_node
      [LoadNode ''Simple load node'' (Some (Some 1)),
       LoadCluster ''Master Loader'' None [0],
       LoadCluster ''Session load cluster'' None [4, 5],
       LoadCluster ''Faults load cluster'' None [6, 7],
       LoadNode ''Session load node 1'' (Some (Some 2)),
       LoadNode ''Session load node 2'' (Some (Some 2)),
       LoadNode ''Faults load node 1'' (Some (Some 3)),
       LoadNode ''Faults load node 2'' (Some (Some 3))] 1 2 =
      [LoadNode ''Simple load node'' (Some (Some 1)),
       LoadCluster ''Master Loader'' None [0, 2],
       LoadCluster ''Session load cluster'' (Some (Some 1)) [4, 5],
       LoadCluster ''Faults load cluster'' None [6, 7],
       LoadNode ''Session load node 1'' (Some (Some 2)),
       LoadNode ''Session load node 2'' (Some (Some 2)),
       LoadNode ''Faults load node 1'' (Some (Some 3)),
       LoadNode ''Faults load node 2'' (Some (Some 3))]"
    by (simp add: new_LoadNode_def new_LoadCluster_def add_node_def set_parent_def)
  have s12: "add_node
      [LoadNode ''Simple load node'' (Some (Some 1)),
       LoadCluster ''Master Loader'' None [0, 2],
       LoadCluster ''Session load cluster'' (Some (Some 1)) [4, 5],
       LoadCluster ''Faults load cluster'' None [6, 7],
       LoadNode ''Session load node 1'' (Some (Some 2)),
       LoadNode ''Session load node 2'' (Some (Some 2)),
       LoadNode ''Faults load node 1'' (Some (Some 3)),
       LoadNode ''Faults load node 2'' (Some (Some 3))] 1 3 =
      [LoadNode ''Simple load node'' (Some (Some 1)),
       LoadCluster ''Master Loader'' None [0, 2, 3],
       LoadCluster ''Session load cluster'' (Some (Some 1)) [4, 5],
       LoadCluster ''Faults load cluster'' (Some (Some 1)) [6, 7],
       LoadNode ''Session load node 1'' (Some (Some 2)),
       LoadNode ''Session load node 2'' (Some (Some 2)),
       LoadNode ''Faults load node 1'' (Some (Some 3)),
       LoadNode ''Faults load node 2'' (Some (Some 3))]"
    by (simp add: new_LoadNode_def new_LoadCluster_def add_node_def set_parent_def)
  show ?thesis
    unfolding composite_main_def depth
    by (simp only: Let_def n0 c0 main_first_client_code main_client_code2
        main_tree_start_load s1 s2 s3 s4 s5 s6 s7 s8 s9 s10 s11 s12 split_conv sum.case)
      (simp add: composite_output_def unlines_def py_print_def)
qed

section \<open>Properties of decorator.py, bridge.py, facade.py and adapter.py\<close>

lemma decorator_main_output: "decorator_main = decorator_output"
  by code_simp

lemma facade_main_output: "facade_main = facade_output"
  by code_simp

lemma initialize_charger_output: "initialize_charger f = facade_output"
  by (simp add: initialize_charger_def facade_output_def unlines_def create_thing_def
      add_shadow_to_thing_def check_charger_in_shadow_table_def
      check_charger_in_cloud_table_def check_charger_in_es_def)

lemma authenticate_cloud:
  "authenticate \<lparr>implementation = CloudAPIImplementation\<rparr> draws =
     ''Logged to cloud platform as user CloudUser with role CloudAPIImplementation''"
  by (simp add: authenticate_def CloudAPIImplementation_get_user_def)

lemma join_chars: "join '''' (map (\<lambda>c. [c]) cs) = cs"
proof (induction cs)
  case Nil
  then show ?case by simp
next
  case (Cons c cs)
  then show ?case by (cases cs) simp_all
qed

lemma authenticate_external:
  "authenticate \<lparr>implementation = ExternalAPIImplementation\<rparr> draws =
     ''Logged to cloud platform via external API token '' @ token_of draws @
     '' as ExternalUser with role ExternalAPIImplementation''"
  by (simp add: authenticate_def ExternalAPIImplementation_get_user_def join_chars
      random_choices_def token_of_def del: map_map)

lemma authenticate_external_eq:
  "(authenticate \<lparr>implementation = ExternalAPIImplementation\<rparr> d1 =
    authenticate \<lparr>implementation = ExternalAPIImplementation\<rparr> d2) = (token_of d1 = token_of d2)"
  by (simp only: authenticate_external same_append_eq append_same_eq)

lemma bridge_main_output:
  "bridge_main draws =
     ''Logged to cloud platform as user CloudUser with role CloudAPIImplementation'' @
     ''\<newline>'' @ ''\<newline>'' @
     ''Logged to cloud platform via external API token '' @ token_of draws @
     '' as ExternalUser with role ExternalAPIImplementation''"
  by (simp only: bridge_main_def bridge_client_code_def Let_def authenticate_cloud
      authenticate_external py_print_def py_print_end_def) simp

lemma token_chars:
  assumes "length draws = 6" and "\<forall>i\<in>set draws. i < 36"
  shows "length (token_of draws) = 6 \<and> set (token_of draws) \<subseteq> set (ascii_uppercase @ digits)"
proof -
  have len: "length (ascii_uppercase @ digits) = 36"
    by (simp add: ascii_uppercase_def digits_def)
  have "set (token_of draws) \<subseteq> set (ascii_uppercase @ digits)"
    unfolding token_of_def using assms len
    by (auto simp del: set_append dest!: in_set_takeD)
  then show ?thesis using assms(1) by (simp add: token_of_def)
qed

lemma adapter_main_output:
  assumes "Adapter_request L = Inr d" and "isinstance_dict d"
  shows "adapter_main L = Inr (adapter_output d)"
  using assms
  by (simp add: adapter_main_def adapter_client_code_def try_client_code_def
      Target_request_def adapter_output_def)

lemma report_data_plain: "\<not> has_mqtt r \<Longrightarrow> snd (report_data r) = r"
  by (induction r) (simp_all add: split_beta)

lemma report_data_again: "fst (report_data (snd (report_data r))) = fst (report_data r)"
  by (induction r)
    (simp_all add: split_beta setup_mqtt_client_def teardown_mqtt_client_def)

lemma report_data_mqtt:
  "snd (report_data (MQTTReporterDecorator r m)) =
     MQTTReporterDecorator (snd (report_data r)) (Some ''MQTT Client down'')"
  by (simp add: split_beta setup_mqtt_client_def teardown_mqtt_client_def)

lemma Adapter_request_xml_libs: "Adapter_request xml_libs = Inr xml_data_dict"
  by code_simp

lemma client_code_Adaptee: "adapter_client_code L Adaptee out = Inl AttributeError"
  by (simp add: adapter_client_code_def)

lemma client_code_Target: "adapter_client_code L Target out = Inr (out @ [Repr Target_request])"
  by (simp add: adapter_client_code_def Target_request_def)

lemma client_code_Adapter:
  assumes "Adapter_request L = Inr d" and "isinstance_dict d"
  shows "adapter_client_code L Adapter out = Inr (out @ [Repr d])"
  using assms by (simp add: adapter_client_code_def)

lemma client_code_not_dict:
  assumes "request L x = Inr v" and "\<not> isinstance_dict v"
  shows "adapter_client_code L x out = Inl AssertionError"
  using assms by (simp add: adapter_client_code_def)

lemma try_client_code_Adaptee:
  "try_client_code L Adaptee out = Inr (out @ [Text ''Adaptee doesn't have 'request' method''])"
  by (simp add: try_client_code_def client_code_Adaptee)

lemma try_client_code_other_error:
  assumes "adapter_client_code L x out = Inl e" and "e \<noteq> AttributeError"
  shows "try_client_code L x out = Inl e"
  using assms by (cases e) (simp_all add: try_client_code_def)

subsection \<open>State kept between calls\<close>

lemma set_parent_facts:
  assumes "self < length h"
  shows "get_parent (set_parent h self q) self = Inr q"
    and "length (set_parent h self q) = length h"
    and "loader_name (set_parent h self q ! self) = loader_name (h ! self)"
    and "i \<noteq> self \<Longrightarrow> set_parent h self q ! i = h ! i"
  using assms by (cases "h ! self"; simp add: get_parent_def set_parent_def)+

lemma get_parent_unset:
  "loader_parent (h ! self) = None \<Longrightarrow> get_parent h self = Inl AttributeError"
  by (simp add: get_parent_def)

lemma leaf_parent:
  assumes "l < length h" and "h ! l = LoadNode n p"
  shows "\<not> is_composite h l"
    and "set_parent h l q ! l = LoadNode n (Some q)"
    and "get_parent h l = (case p of None \<Rightarrow> Inl AttributeError | Some r \<Rightarrow> Inr r)"
  using assms by (simp_all add: is_composite_def set_parent_def get_parent_def)

lemma cluster_add:
  assumes "s < length h" and "h ! s = LoadCluster n p ch"
  shows "add_node h s c ! s =
           LoadCluster n (if c = s then Some (Some s) else p) (ch @ [c])"
    and "c < length h \<Longrightarrow> get_parent (add_node h s c) c = Inr (Some s)"
    and "i \<noteq> s \<Longrightarrow> i \<noteq> c \<Longrightarrow> add_node h s c ! i = h ! i"
proof -
  show "add_node h s c ! s = LoadCluster n (if c = s then Some (Some s) else p) (ch @ [c])"
    using assms by (simp add: add_node_def set_parent_def)
  show "get_parent (add_node h s c) c = Inr (Some s)" if "c < length h"
    using assms that by (simp add: add_node_def set_parent_facts(1))
  show "add_node h s c ! i = h ! i" if "i \<noteq> s" and "i \<noteq> c"
    using assms that by (simp add: add_node_def set_parent_def)
qed

lemma cluster_remove:
  assumes "s < length h" and "h ! s = LoadCluster n p ch" and "c \<in> set ch"
  shows "remove_node h s c =
           Inr (set_parent (h[s := LoadCluster n p (remove1 c ch)]) c None)"
    and "set_parent (h[s := LoadCluster n p (remove1 c ch)]) c None ! s =
           LoadCluster n (if c = s then Some None else p) (remove1 c ch)"
    and "c < length h \<Longrightarrow>
           get_parent (set_parent (h[s := LoadCluster n p (remove1 c ch)]) c None) c = Inr None"
    and "i \<noteq> s \<Longrightarrow> i \<noteq> c \<Longrightarrow>
           set_parent (h[s := LoadCluster n p (remove1 c ch)]) c None ! i = h ! i"
proof -
  show "remove_node h s c = Inr (set_parent (h[s := LoadCluster n p (remove1 c ch)]) c None)"
    using assms by (simp add: remove_node_def)
  show "set_parent (h[s := LoadCluster n p (remove1 c ch)]) c None ! s =
           LoadCluster n (if c = s then Some None else p) (remove1 c ch)"
    using assms by (simp add: set_parent_def)
  show "get_parent (set_parent (h[s := LoadCluster n p (remove1 c ch)]) c None) c = Inr None"
    if "c < length h"
    using that by (simp add: set_parent_facts(1))
  show "set_parent (h[s := LoadCluster n p (remove1 c ch)]) c None ! i = h ! i"
    if "i \<noteq> s" and "i \<noteq> c"
    using that by (simp add: set_parent_def)
qed

lemma cluster_remove_missing:
  assumes "s < length h" and "h ! s = LoadCluster n p ch" and "c \<notin> set ch"
  shows "remove_node h s c = Inl ValueError"
  using assms by (simp add: remove_node_def)

lemma cluster_loads:
  assumes "h ! s = LoadCluster n p ch"
  shows "is_composite h s"
    and "start_load (Suc d) h s =
       (case collect (map (start_load d h) ch) of
          Inl e \<Rightarrow> Inl e
        | Inr results \<Rightarrow>
            Inr (''Cluster '' @ n @ '' started load:'' @ ''\<newline>'' @ join '''' results))"
    and "stop_load (Suc d) h s =
       (case collect (map (stop_load d h) ch) of
          Inl e \<Rightarrow> Inl e
        | Inr results \<Rightarrow>
            Inr (''Cluster '' @ n @ '' stopped load:'' @ ''\<newline>'' @ join '''' results))"
  using assms by (simp_all add: is_composite_def)

text \<open>
  C7 (the claim as stated fails). In composite.py objects keep what earlier calls gave
  them. Before \<open>add_node\<close> the leaf of the script has no parent (the getter raises
  AttributeError) and the master cluster reports its own line. \<open>add_node\<close> on the
  cluster changes both objects: the cluster lists the leaf, the leaf names the cluster as
  its parent; afterwards the getter on the same leaf returns the cluster and the same
  \<open>start_load\<close> call on the same cluster reports the leaf's line too. In decorator.py
  \<open>report_data\<close> on the MQTT decorator of the script leaves the object with
  \<^verbatim>\<open>_mqtt_client\<close> set to \<^verbatim>\<open>"MQTT Client down"\<close>.
\<close>

theorem cluster_and_mqtt_keep_state:
  "get_parent demo_store 0 = Inl AttributeError \<and>
   start_load 2 demo_store 1 =
     Inr (''Cluster Master Loader started load:'' @ ''\<newline>'') \<and>
   add_node demo_store 1 0 =
     [LoadNode ''Simple load node'' (Some (Some 1)), LoadCluster ''Master Loader'' None [0]] \<and>
   get_parent (add_node demo_store 1 0) 0 = Inr (Some 1) \<and>
   start_load 2 (add_node demo_store 1 0) 1 =
     Inr (''Cluster Master Loader started load:'' @ ''\<newline>'' @
          ''Simple load node started load.'' @ ''\<newline>'') \<and>
   start_load 2 (add_node demo_store 1 0) 1 \<noteq> start_load 2 demo_store 1 \<and>
   snd (report_data demo_reporter) =
     MQTTReporterDecorator (ShadowReporterDecorator BasicSessionDataReporter)
       (Some ''MQTT Client down'') \<and>
   snd (report_data demo_reporter) \<noteq> demo_reporter"
  by code_simp

text \<open>
  C7 (amended). What each object keeps between calls, and what it does not.

  \<^bold>\<open>composite.py.\<close> Every Loader, leaf or cluster, keeps \<^verbatim>\<open>_parent\<close>: the setter of
  \<^verbatim>\<open>parent\<close> stores its argument in the object and changes nothing else, and the
  getter returns what was stored last; while nothing has been stored the getter raises
  AttributeError. Apart from that a leaf LoadNode keeps nothing: its \<open>add_node\<close> and
  \<open>remove_node\<close> leave the store as it is, \<open>is_composite\<close> is false, and
  \<open>start_load\<close> and \<open>stop_load\<close> return the line of its name. A LoadCluster keeps
  its children: \<open>add_node\<close> appends the component to the cluster's list and stores the
  cluster as the component's parent, and changes no third object; \<open>remove_node\<close>
  of a child takes its first occurrence off the list and stores \<^verbatim>\<open>None\<close> as its
  parent, and of a component that is not a child raises ValueError; \<open>start_load\<close> and
  \<open>stop_load\<close> are determined by the cluster's name and the children it holds at the
  time.

  \<^bold>\<open>decorator.py.\<close> A reporter without an MQTT decorator is unchanged by
  \<open>report_data\<close>; \<open>setup_mqtt_client\<close> and \<open>teardown_mqtt_client\<close> store
  \<^verbatim>\<open>"MQTT Client up"\<close> and \<^verbatim>\<open>"MQTT Client down"\<close>, and \<open>report_data\<close> leaves an
  MQTT decorator with the latter; for every reporter a second \<open>report_data\<close>
  returns the string the first returned.

  \<^bold>\<open>facade.py, adapter.py, bridge.py.\<close> \<open>initialize_charger\<close>, \<open>request\<close> on each
  of the three classes and \<open>authenticate\<close> return values that are fixed by the object
  (and, for the external implementation, by the six indices drawn); they take no state
  and return none, as the methods assign no attribute.
\<close>

theorem state_kept_by_objects:
  "(self < length h \<longrightarrow>
      get_parent (set_parent h self q) self = Inr q \<and>
      length (set_parent h self q) = length h \<and>
      loader_name (set_parent h self q ! self) = loader_name (h ! self) \<and>
      (i \<noteq> self \<longrightarrow> set_parent h self q ! i = h ! i)) \<and>
   (loader_parent (h ! self) = None \<longrightarrow> get_parent h self = Inl AttributeError) \<and>
   (l < length h \<and> h ! l = LoadNode name parent \<longrightarrow>
      add_node h l c = h \<and> remove_node h l c = Inr h \<and> \<not> is_composite h l \<and>
      start_load (Suc d) h l = Inr (name @ '' started load.'' @ ''\<newline>'') \<and>
      stop_load (Suc d) h l = Inr (name @ '' stopped load.'' @ ''\<newline>'') \<and>
      set_parent h l q ! l = LoadNode name (Some q) \<and>
      get_parent h l = (case parent of None \<Rightarrow> Inl AttributeError | Some r \<Rightarrow> Inr r)) \<and>
   (s < length h \<and> h ! s = LoadCluster cname cparent children \<longrightarrow>
      is_composite h s \<and>
      add_node h s c ! s =
        LoadCluster cname (if c = s then Some (Some s) else cparent) (children @ [c]) \<and>
      (c < length h \<longrightarrow> get_parent (add_node h s c) c = Inr (Some s)) \<and>
      (i \<noteq> s \<and> i \<noteq> c \<longrightarrow> add_node h s c ! i = h ! i) \<and>
      (c \<in> set children \<longrightarrow>
         (\<exists>h1. remove_node h s c = Inr h1 \<and>
            h1 ! s = LoadCluster cname (if c = s then Some None else cparent)
                       (remove1 c children) \<and>
            (c < length h \<longrightarrow> get_parent h1 c = Inr None) \<and>
            (i \<noteq> s \<and> i \<noteq> c \<longrightarrow> h1 ! i = h ! i))) \<and>
      (c \<notin> set children \<longrightarrow> remove_node h s c = Inl ValueError) \<and>
      start_load (Suc d) h s =
        (case collect (map (start_load d h) children) of
           Inl e \<Rightarrow> Inl e
         | Inr results \<Rightarrow>
             Inr (''Cluster '' @ cname @ '' started load:'' @ ''\<newline>'' @ join '''' results)) \<and>
      stop_load (Suc d) h s =
        (case collect (map (stop_load d h) children) of
           Inl e \<Rightarrow> Inl e
         | Inr results \<Rightarrow>
             Inr (''Cluster '' @ cname @ '' stopped load:'' @ ''\<newline>'' @ join '''' results))) \<and>
   (\<not> has_mqtt r \<longrightarrow> snd (report_data r) = r) \<and>
   fst (report_data (snd (report_data r))) = fst (report_data r) \<and>
   snd (setup_mqtt_client m) = Some ''MQTT Client up'' \<and>
   snd (teardown_mqtt_client m) = Some ''MQTT Client down'' \<and>
   snd (report_data (MQTTReporterDecorator r m)) =
     MQTTReporterDecorator (snd (report_data r)) (Some ''MQTT Client down'') \<and>
   initialize_charger f = facade_output \<and>
   request L Target = Inr Target_request \<and>
   request L Adaptee = Inl AttributeError \<and>
   request L Adapter = Adapter_request L \<and>
   authenticate \<lparr>implementation = CloudAPIImplementation\<rparr> draws =
     ''Logged to cloud platform as user CloudUser with role CloudAPIImplementation'' \<and>
   authenticate \<lparr>implementation = ExternalAPIImplementation\<rparr> draws =
     ''Logged to cloud platform via external API token '' @ token_of draws @
     '' as ExternalUser with role ExternalAPIImplementation''"
proof -
  have setter: "self < length h \<longrightarrow>
      get_parent (set_parent h self q) self = Inr q \<and>
      length (set_parent h self q) = length h \<and>
      loader_name (set_parent h self q ! self) = loader_name (h ! self) \<and>
      (i \<noteq> self \<longrightarrow> set_parent h self q ! i = h ! i)"
    using set_parent_facts [where self = self and h = h and q = q] by blast
  have getter: "loader_parent (h ! self) = None \<longrightarrow> get_parent h self = Inl AttributeError"
    using get_parent_unset by blast
  have leaf: "l < length h \<and> h ! l = LoadNode name parent \<longrightarrow>
      add_node h l c = h \<and> remove_node h l c = Inr h \<and> \<not> is_composite h l \<and>
      start_load (Suc d) h l = Inr (name @ '' started load.'' @ ''\<newline>'') \<and>
      stop_load (Suc d) h l = Inr (name @ '' stopped load.'' @ ''\<newline>'') \<and>
      set_parent h l q ! l = LoadNode name (Some q) \<and>
      get_parent h l = (case parent of None \<Rightarrow> Inl AttributeError | Some r \<Rightarrow> Inr r)"
    using leaf_ops [where l = l and h = h and n = name and p = parent]
      leaf_parent [where l = l and h = h and n = name and p = parent]
    by blast
  have cluster: "s < length h \<and> h ! s = LoadCluster cname cparent children \<longrightarrow>
      is_composite h s \<and>
      add_node h s c ! s =
        LoadCluster cname (if c = s then Some (Some s) else cparent) (children @ [c]) \<and>
      (c < length h \<longrightarrow> get_parent (add_node h s c) c = Inr (Some s)) \<and>
      (i \<noteq> s \<and> i \<noteq> c \<longrightarrow> add_node h s c ! i = h ! i) \<and>
      (c \<in> set children \<longrightarrow>
         (\<exists>h1. remove_node h s c = Inr h1 \<and>
            h1 ! s = LoadCluster cname (if c = s then Some None else cparent)
                       (remove1 c children) \<and>
            (c < length h \<longrightarrow> get_parent h1 c = Inr None) \<and>
            (i \<noteq> s \<and> i \<noteq> c \<longrightarrow> h1 ! i = h ! i))) \<and>
      (c \<notin> set children \<longrightarrow> remove_node h s c = Inl ValueError) \<and>
      start_load (Suc d) h s =
        (case collect (map (start_load d h) children) of
           Inl e \<Rightarrow> Inl e
         | Inr results \<Rightarrow>
             Inr (''Cluster '' @ cname @ '' started load:'' @ ''\<newline>'' @ join '''' results)) \<and>
      stop_load (Suc d) h s =
        (case collect (map (stop_load d h) children) of
           Inl e \<Rightarrow> Inl e
         | Inr results \<Rightarrow>
             Inr (''Cluster '' @ cname @ '' stopped load:'' @ ''\<newline>'' @ join '''' results))"
  proof
    assume a: "s < length h \<and> h ! s = LoadCluster cname cparent children"
    then have s: "s < length h" and hs: "h ! s = LoadCluster cname cparent children"
      by simp_all
    note add = cluster_add [OF s hs]
    note loads = cluster_loads [OF hs]
    have removed: "c \<in> set children \<longrightarrow>
         (\<exists>h1. remove_node h s c = Inr h1 \<and>
            h1 ! s = LoadCluster cname (if c = s then Some None else cparent)
                       (remove1 c children) \<and>
            (c < length h \<longrightarrow> get_parent h1 c = Inr None) \<and>
            (i \<noteq> s \<and> i \<noteq> c \<longrightarrow> h1 ! i = h ! i))"
      using cluster_remove [OF s hs] by blast
    have missing: "c \<notin> set children \<longrightarrow> remove_node h s c = Inl ValueError"
      using cluster_remove_missing [OF s hs] by blast
    have parent_set: "c < length h \<longrightarrow> get_parent (add_node h s c) c = Inr (Some s)"
      using add(2) by blast
    have others: "i \<noteq> s \<and> i \<noteq> c \<longrightarrow> add_node h s c ! i = h ! i"
      using add(3) by blast
    from loads(1) add(1) [of c] parent_set others removed missing loads(2) [of d] loads(3) [of d]
    show "is_composite h s \<and>
      add_node h s c ! s =
        LoadCluster cname (if c = s then Some (Some s) else cparent) (children @ [c]) \<and>
      (c < length h \<longrightarrow> get_parent (add_node h s c) c = Inr (Some s)) \<and>
      (i \<noteq> s \<and> i \<noteq> c \<longrightarrow> add_node h s c ! i = h ! i) \<and>
      (c \<in> set children \<longrightarrow>
         (\<exists>h1. remove_node h s c = Inr h1 \<and>
            h1 ! s = LoadCluster cname (if c = s then Some None else cparent)
                       (remove1 c children) \<and>
            (c < length h \<longrightarrow> get_parent h1 c = Inr None) \<and>
            (i \<noteq> s \<and> i \<noteq> c \<longrightarrow> h1 ! i = h ! i))) \<and>
      (c \<notin> set children \<longrightarrow> remove_node h s c = Inl ValueError) \<and>
      start_load (Suc d) h s =
        (case collect (map (start_load d h) children) of
           Inl e \<Rightarrow> Inl e
         | Inr results \<Rightarrow>
             Inr (''Cluster '' @ cname @ '' started load:'' @ ''\<newline>'' @ join '''' results)) \<and>
      stop_load (Suc d) h s =
        (case collect (map (stop_load d h) children) of
           Inl e \<Rightarrow> Inl e
         | Inr results \<Rightarrow>
             Inr (''Cluster '' @ cname @ '' stopped load:'' @ ''\<newline>'' @ join '''' results))"
      by (intro conjI)
  qed
  have plain: "\<not> has_mqtt r \<longrightarrow> snd (report_data r) = r"
    by (simp add: report_data_plain)
  have up: "snd (setup_mqtt_client m) = Some ''MQTT Client up''"
    and down: "snd (teardown_mqtt_client m) = Some ''MQTT Client down''"
    by (simp_all add: setup_mqtt_client_def teardown_mqtt_client_def)
  have requests: "request L Target = Inr Target_request"
    "request L Adaptee = Inl AttributeError" "request L Adapter = Adapter_request L"
    by simp_all
  from setter getter leaf cluster plain report_data_again [of r] up down
    report_data_mqtt [of r m] initialize_charger_output [of f] requests
    authenticate_cloud [of draws] authenticate_external [of draws]
  show ?thesis
    by (intro conjI)
qed

text \<open>
  A store with the leaf and the master cluster of the script after the leaf was added to
  the cluster, and a second leaf that has no parent yet: the setter and the getter on the
  leaves, the leaf's own operations, and the cluster's operations for its child (object
  0) and for a component that is not its child (object 2).
\<close>

theorem state_kept_by_objects_witness:
  "get_parent [LoadNode ''Simple load node'' (Some (Some 1)),
               LoadCluster ''Master Loader'' None [0],
               LoadNode ''Session load node 1'' None] 0 = Inr (Some 1) \<and>
   get_parent (set_parent [LoadNode ''Simple load node'' (Some (Some 1)),
               LoadCluster ''Master Loader'' None [0],
               LoadNode ''Session load node 1'' None] 0 None) 0 = Inr None \<and>
   get_parent [LoadNode ''Simple load node'' (Some (Some 1)),
               LoadCluster ''Master Loader'' None [0],
               LoadNode ''Session load node 1'' None] 2 = Inl AttributeError \<and>
   add_node [LoadNode ''Simple load node'' (Some (Some 1)),
               LoadCluster ''Master Loader'' None [0],
               LoadNode ''Session load node 1'' None] 0 0 =
     [LoadNode ''Simple load node'' (Some (Some 1)),
      LoadCluster ''Master Loader'' None [0],
      LoadNode ''Session load node 1'' None] \<and>
   (\<exists>h1. remove_node [LoadNode ''Simple load node'' (Some (Some 1)),
               LoadCluster ''Master Loader'' None [0],
               LoadNode ''Session load node 1'' None] 1 0 = Inr h1 \<and>
      h1 ! 1 = LoadCluster ''Master Loader'' None [] \<and>
      get_parent h1 0 = Inr None \<and>
      h1 ! 2 = LoadNode ''Session load node 1'' None) \<and>
   remove_node [LoadNode ''Simple load node'' (Some (Some 1)),
               LoadCluster ''Master Loader'' None [0],
               LoadNode ''Session load node 1'' None] 1 2 = Inl ValueError \<and>
   add_node [LoadNode ''Simple load node'' (Some (Some 1)),
               LoadCluster ''Master Loader'' None [0],
               LoadNode ''Session load node 1'' None] 1 2 ! 1 =
     LoadCluster ''Master Loader'' None [0, 2] \<and>
   get_parent (add_node [LoadNode ''Simple load node'' (Some (Some 1)),
               LoadCluster ''Master Loader'' None [0],
               LoadNode ''Session load node 1'' None] 1 2) 2 = Inr (Some 1) \<and>
   start_load 2 [LoadNode ''Simple load node'' (Some (Some 1)),
               LoadCluster ''Master Loader'' None [0],
               LoadNode ''Session load node 1'' None] 1 =
     Inr (''Cluster Master Loader started load:'' @ ''\<newline>'' @
          ''Simple load node started load.'' @ ''\<newline>'') \<and>
   snd (report_data (ShadowReporterDecorator BasicSessionDataReporter)) =
     ShadowReporterDecorator BasicSessionDataReporter"
proof -
  let ?h = "[LoadNode ''Simple load node'' (Some (Some 1)),
             LoadCluster ''Master Loader'' None [0],
             LoadNode ''Session load node 1'' None]"
  note child = state_kept_by_objects [where h = ?h and self = 0 and q = None and i = 2
      and l = 0 and name = "''Simple load node''" and parent = "Some (Some 1)" and c = 0
      and s = 1 and cname = "''Master Loader''" and cparent = None and children = "[0]"
      and d = 1 and r = "ShadowReporterDecorator BasicSessionDataReporter"]
  note other = state_kept_by_objects [where h = ?h and self = 2 and q = None and i = 0
      and l = 2 and name = "''Session load node 1''" and parent = None and c = 2
      and s = 1 and cname = "''Master Loader''" and cparent = None and children = "[0]"
      and d = 1 and r = "ShadowReporterDecorator BasicSessionDataReporter"]
  have two: "(2::nat) = Suc 1" by simp
  from child have a: "get_parent ?h 0 = Inr (Some 1)"
    and b: "get_parent (set_parent ?h 0 None) 0 = Inr None"
    and c: "add_node ?h 0 0 = ?h"
    and d: "\<exists>h1. remove_node ?h 1 0 = Inr h1 \<and>
      h1 ! 1 = LoadCluster ''Master Loader'' None [] \<and>
      get_parent h1 0 = Inr None \<and>
      h1 ! 2 = LoadNode ''Session load node 1'' None"
    and e: "start_load (Suc 1) ?h 1 =
     Inr (''Cluster Master Loader started load:'' @ ''\<newline>'' @
          ''Simple load node started load.'' @ ''\<newline>'')"
    and f: "snd (report_data (ShadowReporterDecorator BasicSessionDataReporter)) =
     ShadowReporterDecorator BasicSessionDataReporter"
    by simp_all
  from other have g: "get_parent ?h 2 = Inl AttributeError"
    and h: "remove_node ?h 1 2 = Inl ValueError"
    and i: "add_node ?h 1 2 ! 1 = LoadCluster ''Master Loader'' None [0, 2]"
    and j: "get_parent (add_node ?h 1 2) 2 = Inr (Some 1)"
    by simp_all
  from a b g c d h i j e f show ?thesis
    unfolding two by (intro conjI)
qed

subsection \<open>What a run prints\<close>

lemma flyweight_runs_differ: "flyweight_main as_written \<noteq> flyweight_main backwards"
proof -
  have "flyweight_output as_written \<noteq> flyweight_output backwards"
    by code_simp
  then show ?thesis
    by (simp only: flyweight_main_runs sum.inject simp_thms)
qed

text \<open>
  C8 (the claim as stated fails). Two of the scripts use something the source does not
  fix. In bridge.py \<open>authenticate\<close> over the external implementation returns a string
  with the token \<open>AAAAAA\<close> when \<^verbatim>\<open>random.choices\<close> draws the index 0 six times, and
  another string, with the token \<open>BAAAAA\<close>, when the first index drawn is 1. In
  flyweight.py the keys that are listed and the sets that are displayed follow the
  iteration order of sets of strings, which depends on the strings' hashes and so on the
  interpreter's hash seed: a run that iterates every set as written prints
  \<open>BMW_M5_red\<close> and \<open>{'BMW', 'M5', 'red'}\<close>, a run that iterates every set backwards
  prints \<open>red_M5_BMW\<close> and \<open>{'red', 'M5', 'BMW'}\<close>.
\<close>

theorem outputs_differ_between_runs:
  "authenticate \<lparr>implementation = ExternalAPIImplementation\<rparr> [0, 0, 0, 0, 0, 0] =
     ''Logged to cloud platform via external API token AAAAAA as ExternalUser with role ExternalAPIImplementation'' \<and>
   authenticate \<lparr>implementation = ExternalAPIImplementation\<rparr> [1, 0, 0, 0, 0, 0] =
     ''Logged to cloud platform via external API token BAAAAA as ExternalUser with role ExternalAPIImplementation'' \<and>
   authenticate \<lparr>implementation = ExternalAPIImplementation\<rparr> [0, 0, 0, 0, 0, 0] \<noteq>
     authenticate \<lparr>implementation = ExternalAPIImplementation\<rparr> [1, 0, 0, 0, 0, 0] \<and>
   bridge_main [0, 0, 0, 0, 0, 0] \<noteq> bridge_main [1, 0, 0, 0, 0, 0] \<and>
   get_key (as_written 3 [''BMW'', ''M5'', ''red'']) = ''BMW_M5_red'' \<and>
   get_key (backwards 3 [''BMW'', ''M5'', ''red'']) = ''red_M5_BMW'' \<and>
   repr_set (as_written 3 [''BMW'', ''M5'', ''red'']) = ''{'BMW', 'M5', 'red'}'' \<and>
   repr_set (backwards 3 [''BMW'', ''M5'', ''red'']) = ''{'red', 'M5', 'BMW'}'' \<and>
   flyweight_main as_written = Inr (flyweight_output as_written) \<and>
   flyweight_main backwards = Inr (flyweight_output backwards) \<and>
   flyweight_main as_written \<noteq> flyweight_main backwards"
proof -
  have bridge: "authenticate \<lparr>implementation = ExternalAPIImplementation\<rparr> [0, 0, 0, 0, 0, 0] =
     ''Logged to cloud platform via external API token AAAAAA as ExternalUser with role ExternalAPIImplementation''"
    "authenticate \<lparr>implementation = ExternalAPIImplementation\<rparr> [1, 0, 0, 0, 0, 0] =
     ''Logged to cloud platform via external API token BAAAAA as ExternalUser with role ExternalAPIImplementation''"
    "authenticate \<lparr>implementation = ExternalAPIImplementation\<rparr> [0, 0, 0, 0, 0, 0] \<noteq>
     authenticate \<lparr>implementation = ExternalAPIImplementation\<rparr> [1, 0, 0, 0, 0, 0]"
    "bridge_main [0, 0, 0, 0, 0, 0] \<noteq> bridge_main [1, 0, 0, 0, 0, 0]"
    by code_simp+
  have sets: "get_key (as_written 3 [''BMW'', ''M5'', ''red'']) = ''BMW_M5_red''"
    "get_key (backwards 3 [''BMW'', ''M5'', ''red'']) = ''red_M5_BMW''"
    "repr_set (as_written 3 [''BMW'', ''M5'', ''red'']) = ''{'BMW', 'M5', 'red'}''"
    "repr_set (backwards 3 [''BMW'', ''M5'', ''red'']) = ''{'red', 'M5', 'BMW'}''"
    by code_simp+
  from bridge sets flyweight_main_runs(1,2) flyweight_runs_differ show ?thesis
    by (intro conjI)
qed

text \<open>
  C8 (amended). What is fixed by the source, and what a run adds.

    \<^item> composite.py, decorator.py and facade.py print the same text on every run
      (\<open>composite_output\<close>, \<open>decorator_output\<close>, \<open>facade_output\<close>), composite.py
      provided the interpreter allows it three nested calls; adapter.py prints
      \<open>adapter_output d\<close> whenever the library calls of \<open>Adapter.request\<close> return a
      dictionary \<open>d\<close>.

    \<^item> \<open>authenticate\<close> over the cloud implementation returns the same string on every
      run. Over the external implementation it returns a fixed text around the token,
      which is made of the six characters of \<open>A-Z0-9\<close> at the indices that
      \<^verbatim>\<open>random.choices\<close> draws; so does what bridge.py prints, and two runs return the
      same string exactly when they draw the same token.

    \<^item> flyweight.py builds nine sets of strings, and what it prints is fixed by the orders
      in which the interpreter iterates them (any orders that list each set's elements
      once each): the keys listed are the elements joined in iteration order and the
      sets are displayed in iteration order. When the set of the first request is
      iterated as the seeded set of the same elements was, the script prints
      \<open>flyweight_output\<close>: five flyweights, a reuse, a creation, six flyweights. When
      it is iterated in another order, the script prints
      \<open>flyweight_output_reordered\<close>: five flyweights, two creations, seven flyweights.
\<close>

theorem outputs_fixed_up_to_token:
  "(3 \<le> depth \<longrightarrow> composite_main depth = Inr composite_output) \<and>
   decorator_main = decorator_output \<and>
   facade_main = facade_output \<and>
   (Adapter_request L = Inr d \<and> isinstance_dict d \<longrightarrow> adapter_main L = Inr (adapter_output d)) \<and>
   authenticate \<lparr>implementation = CloudAPIImplementation\<rparr> draws =
     ''Logged to cloud platform as user CloudUser with role CloudAPIImplementation'' \<and>
   authenticate \<lparr>implementation = ExternalAPIImplementation\<rparr> draws =
     ''Logged to cloud platform via external API token '' @ token_of draws @
     '' as ExternalUser with role ExternalAPIImplementation'' \<and>
   bridge_main draws =
     ''Logged to cloud platform as user CloudUser with role CloudAPIImplementation'' @
     ''\<newline>'' @ ''\<newline>'' @
     ''Logged to cloud platform via external API token '' @ token_of draws @
     '' as ExternalUser with role ExternalAPIImplementation'' \<and>
   ((authenticate \<lparr>implementation = ExternalAPIImplementation\<rparr> d1 =
     authenticate \<lparr>implementation = ExternalAPIImplementation\<rparr> d2) = (token_of d1 = token_of d2)) \<and>
   ((bridge_main d1 = bridge_main d2) = (token_of d1 = token_of d2)) \<and>
   (length draws = 6 \<and> (\<forall>i\<in>set draws. i < 36) \<longrightarrow>
      length (token_of draws) = 6 \<and> set (token_of draws) \<subseteq> set (ascii_uppercase @ digits)) \<and>
   ((\<forall>n xs. set (order n xs) = set xs \<and> distinct (order n xs)) \<longrightarrow>
      (order 5 [''BMW'', ''M5'', ''red''] = order 3 [''BMW'', ''M5'', ''red''] \<longrightarrow>
         flyweight_main order = Inr (flyweight_output order)) \<and>
      (order 5 [''BMW'', ''M5'', ''red''] \<noteq> order 3 [''BMW'', ''M5'', ''red''] \<longrightarrow>
         flyweight_main order = Inr (flyweight_output_reordered order)))"
proof -
  have composite: "3 \<le> depth \<longrightarrow> composite_main depth = Inr composite_output"
    using composite_main_output by blast
  have adapter: "Adapter_request L = Inr d \<and> isinstance_dict d \<longrightarrow>
      adapter_main L = Inr (adapter_output d)"
    using adapter_main_output by blast
  have bridge: "(bridge_main d1 = bridge_main d2) = (token_of d1 = token_of d2)"
    by (simp only: bridge_main_output same_append_eq append_same_eq)
  have token: "length draws = 6 \<and> (\<forall>i\<in>set draws. i < 36) \<longrightarrow>
      length (token_of draws) = 6 \<and> set (token_of draws) \<subseteq> set (ascii_uppercase @ digits)"
    using token_chars by blast
  have flyweight: "(\<forall>n xs. set (order n xs) = set xs \<and> distinct (order n xs)) \<longrightarrow>
      (order 5 [''BMW'', ''M5'', ''red''] = order 3 [''BMW'', ''M5'', ''red''] \<longrightarrow>
         flyweight_main order = Inr (flyweight_output order)) \<and>
      (order 5 [''BMW'', ''M5'', ''red''] \<noteq> order 3 [''BMW'', ''M5'', ''red''] \<longrightarrow>
         flyweight_main order = Inr (flyweight_output_reordered order))"
  proof
    assume "\<forall>n xs. set (order n xs) = set xs \<and> distinct (order n xs)"
    then have sets: "\<forall>n xs. set (order n xs) = set xs"
      by simp
    show "(order 5 [''BMW'', ''M5'', ''red''] = order 3 [''BMW'', ''M5'', ''red''] \<longrightarrow>
         flyweight_main order = Inr (flyweight_output order)) \<and>
      (order 5 [''BMW'', ''M5'', ''red''] \<noteq> order 3 [''BMW'', ''M5'', ''red''] \<longrightarrow>
         flyweight_main order = Inr (flyweight_output_reordered order))"
      using flyweight_main_reusing [OF sets] flyweight_main_reordered [OF sets] by blast
  qed
  from composite decorator_main_output facade_main_output adapter
    authenticate_cloud [of draws] authenticate_external [of draws] bridge_main_output [of draws]
    authenticate_external_eq [of d1 d2] bridge token flyweight
  show ?thesis
    by (intro conjI)
qed

text \<open>
  With three nested calls allowed, the modelled libraries, the draws 0, 1, 2, 26, 35, 25
  (the token \<open>ABC09Z\<close>), and two assignments of iteration orders for flyweight.py:
  every set as written, and every set as written except the set of the first request.
\<close>

theorem outputs_fixed_up_to_token_witness:
  "composite_main 3 = Inr composite_output \<and>
   Adapter_request xml_libs = Inr xml_data_dict \<and> isinstance_dict xml_data_dict \<and>
   adapter_main xml_libs = Inr (adapter_output xml_data_dict) \<and>
   length [0, 1, 2, 26, 35, 25 :: nat] = 6 \<and>
   token_of [0, 1, 2, 26, 35, 25] = ''ABC09Z'' \<and>
   length (token_of [0, 1, 2, 26, 35, 25]) = 6 \<and>
   set (token_of [0, 1, 2, 26, 35, 25]) \<subseteq> set (ascii_uppercase @ digits) \<and>
   authenticate \<lparr>implementation = ExternalAPIImplementation\<rparr> [0, 1, 2, 26, 35, 25] =
     ''Logged to cloud platform via external API token ABC09Z as ExternalUser with role ExternalAPIImplementation'' \<and>
   as_written 5 [''BMW'', ''M5'', ''red''] = as_written 3 [''BMW'', ''M5'', ''red''] \<and>
   flyweight_main as_written = Inr (flyweight_output as_written) \<and>
   request_backwards 5 [''BMW'', ''M5'', ''red''] \<noteq>
     request_backwards 3 [''BMW'', ''M5'', ''red''] \<and>
   flyweight_main request_backwards = Inr (flyweight_output_reordered request_backwards)"
proof -
  have a: "isinstance_dict xml_data_dict" by (simp add: xml_data_dict_def)
  have b: "length [0, 1, 2, 26, 35, 25 :: nat] = 6" by simp
  have c: "\<forall>i\<in>set [0, 1, 2, 26, 35, 25 :: nat]. i < 36" by simp
  have t: "token_of [0, 1, 2, 26, 35, 25] = ''ABC09Z''" by code_simp
  have depth: "(3::nat) \<le> 3" by simp
  have e1: "\<forall>n xs. set (as_written n xs) = set xs \<and> distinct (as_written n xs)"
    by (simp add: as_written_def)
  have e2: "\<forall>n xs. set (request_backwards n xs) = set xs \<and> distinct (request_backwards n xs)"
    by (simp add: request_backwards_def)
  have same: "as_written 5 [''BMW'', ''M5'', ''red''] = as_written 3 [''BMW'', ''M5'', ''red'']"
    by (simp add: as_written_def)
  have other: "request_backwards 5 [''BMW'', ''M5'', ''red''] \<noteq>
     request_backwards 3 [''BMW'', ''M5'', ''red'']"
    by (simp add: request_backwards_def)
  have first: "composite_main 3 = Inr composite_output \<and>
     adapter_main xml_libs = Inr (adapter_output xml_data_dict) \<and>
     length (token_of [0, 1, 2, 26, 35, 25]) = 6 \<and>
     set (token_of [0, 1, 2, 26, 35, 25]) \<subseteq> set (ascii_uppercase @ digits) \<and>
     authenticate \<lparr>implementation = ExternalAPIImplementation\<rparr> [0, 1, 2, 26, 35, 25] =
       ''Logged to cloud platform via external API token '' @ token_of [0, 1, 2, 26, 35, 25] @
       '' as ExternalUser with role ExternalAPIImplementation'' \<and>
     flyweight_main as_written = Inr (flyweight_output as_written)"
    using outputs_fixed_up_to_token [where depth = 3 and L = xml_libs and d = xml_data_dict
        and draws = "[0, 1, 2, 26, 35, 25]" and order = as_written]
      Adapter_request_xml_libs a b c depth e1 same
    by blast
  have second: "flyweight_main request_backwards =
      Inr (flyweight_output_reordered request_backwards)"
    using outputs_fixed_up_to_token [where order = request_backwards] e2 other
    by blast
  from first second show ?thesis
    using Adapter_request_xml_libs a b same other by (simp only: t) simp
qed

subsection \<open>The failure paths of adapter.py\<close>

text \<open>
  C5 (the claim as stated fails). \<^verbatim>\<open>client_code\<close> has a second failure path, which
  it spells out itself: the assertion on the format of the data. Given an object whose
  \<^verbatim>\<open>request\<close> returns the XML byte string unconverted, \<^verbatim>\<open>client_code\<close> raises
  AssertionError, and the \<^verbatim>\<open>try\<close> statement of the main block does not catch it.
\<close>

theorem client_code_assertion_fails:
  "request xml_libs (Other (Some (Inr specific_request))) = Inr specific_request \<and>
   adapter_client_code xml_libs (Other (Some (Inr specific_request))) [] = Inl AssertionError \<and>
   try_client_code xml_libs (Other (Some (Inr specific_request))) [] = Inl AssertionError"
  by (simp add: adapter_client_code_def try_client_code_def specific_request_def)

text \<open>
  C5 (amended). \<^verbatim>\<open>client_code\<close> on an Adaptee, which has no \<^verbatim>\<open>request\<close>, raises
  AttributeError; the \<^verbatim>\<open>try\<close> statement of the main block catches it and prints the
  message, and lets every other exception pass. \<^verbatim>\<open>client_code\<close> on a Target raises
  nothing and prints the Target's dictionary; on an Adapter it raises nothing and prints
  the dictionary, provided the library calls of \<^verbatim>\<open>Adapter.request\<close> return a
  dictionary, and then the script runs to its end and prints \<open>adapter_output\<close>. The
  other failure path of \<^verbatim>\<open>client_code\<close> is its assertion: on any object whose
  \<^verbatim>\<open>request\<close> returns something that is not a dictionary it raises AssertionError.
\<close>

theorem client_code_failure_paths:
  "adapter_client_code L Adaptee out = Inl AttributeError \<and>
   try_client_code L Adaptee out =
     Inr (out @ [Text ''Adaptee doesn't have 'request' method'']) \<and>
   (adapter_client_code L x out = Inl e \<and> e \<noteq> AttributeError \<longrightarrow>
      try_client_code L x out = Inl e) \<and>
   adapter_client_code L Target out = Inr (out @ [Repr Target_request]) \<and>
   (Adapter_request L = Inr d \<and> isinstance_dict d \<longrightarrow>
      adapter_client_code L Adapter out = Inr (out @ [Repr d]) \<and>
      adapter_main L = Inr (adapter_output d)) \<and>
   (request L x = Inr v \<and> \<not> isinstance_dict v \<longrightarrow>
      adapter_client_code L x out = Inl AssertionError)"
proof -
  have other: "adapter_client_code L x out = Inl e \<and> e \<noteq> AttributeError \<longrightarrow>
      try_client_code L x out = Inl e"
    using try_client_code_other_error by blast
  have adapter: "Adapter_request L = Inr d \<and> isinstance_dict d \<longrightarrow>
      adapter_client_code L Adapter out = Inr (out @ [Repr d]) \<and>
      adapter_main L = Inr (adapter_output d)"
    using client_code_Adapter adapter_main_output by blast
  have not_dict: "request L x = Inr v \<and> \<not> isinstance_dict v \<longrightarrow>
      adapter_client_code L x out = Inl AssertionError"
    using client_code_not_dict by blast
  from other adapter not_dict show ?thesis
    by (simp only: client_code_Adaptee try_client_code_Adaptee client_code_Target simp_thms)
qed

theorem client_code_failure_paths_witness:
  "Adapter_request xml_libs = Inr xml_data_dict \<and> isinstance_dict xml_data_dict \<and>
   adapter_client_code xml_libs Adaptee [] = Inl AttributeError \<and>
   adapter_client_code xml_libs Adapter [] = Inr [Repr xml_data_dict] \<and>
   adapter_main xml_libs = Inr (adapter_output xml_data_dict) \<and>
   request xml_libs (Other (Some (Inr specific_request))) = Inr specific_request \<and>
   \<not> isinstance_dict specific_request \<and>
   adapter_client_code xml_libs (Other (Some (Inr specific_request))) [] = Inl AssertionError \<and>
   try_client_code xml_libs (Other (Some (Inr specific_request))) [] = Inl AssertionError"
proof -
  have a: "isinstance_dict xml_data_dict" by (simp add: xml_data_dict_def)
  have b: "request xml_libs (Other (Some (Inr specific_request))) = Inr specific_request"
    by simp
  have c: "\<not> isinstance_dict specific_request" by (simp add: specific_request_def)
  have d: "AssertionError \<noteq> AttributeError" by simp
  have "adapter_client_code xml_libs Adaptee [] = Inl AttributeError \<and>
     adapter_client_code xml_libs Adapter [] = Inr ([] @ [Repr xml_data_dict]) \<and>
     adapter_main xml_libs = Inr (adapter_output xml_data_dict) \<and>
     adapter_client_code xml_libs (Other (Some (Inr specific_request))) [] = Inl AssertionError \<and>
     try_client_code xml_libs (Other (Some (Inr specific_request))) [] = Inl AssertionError"
    using client_code_failure_paths [where L = xml_libs and d = xml_data_dict and out = "[]"
        and x = "Other (Some (Inr specific_request))" and v = specific_request
        and e = AssertionError] Adapter_request_xml_libs a b c d
    by blast
  then show ?thesis
    using Adapter_request_xml_libs a b c by simp
qed

subsection \<open>The result of the adapter\<close>



end
